theory Spec2Isabelle
  imports Complex_Main "HOL-Library.Char_ord" "HOL-Library.List_Lexorder"
    "HOL-Library.Multiset" "HOL-Library.AList"
begin


section \<open>Cost model (domain/usage/entities.py)\<close>

text \<open>
  \<^verbatim>\<open>CostBreakdown.calculate\<close> works on Python floats and rounds with the builtin
  \<^verbatim>\<open>round\<close>. The float arithmetic is idealised here as exact rational arithmetic;
  \<^verbatim>\<open>round\<close> on a float returns the nearest integer and resolves a tie to the even
  neighbour.
\<close>

definition py_round :: "rat \<Rightarrow> int" where
  "py_round x =
     (let f = \<lfloor>x\<rfloor>; d = x - of_int f
      in if d < 1 / 2 then f
         else if 1 / 2 < d then f + 1
         else if even f then f else f + 1)"

definition EMBEDDING_RATE_CENTS :: rat where
  "EMBEDDING_RATE_CENTS = 1 / 100"

definition LLM_INPUT_RATE_CENTS :: rat where
  "LLM_INPUT_RATE_CENTS = 1"

definition LLM_OUTPUT_RATE_CENTS :: rat where
  "LLM_OUTPUT_RATE_CENTS = 3"

definition VECTOR_QUERY_RATE_CENTS :: rat where
  "VECTOR_QUERY_RATE_CENTS = 1 / 100"

record CostBreakdown =
  embedding_tokens :: int
  embedding_cost_cents :: int
  llm_input_tokens :: int
  llm_output_tokens :: int
  llm_cost_cents :: int
  vector_queries :: int
  vector_cost_cents :: int
  margin_cents :: int
  total_cents :: int
  total_credits :: int

definition zero :: CostBreakdown where
  "zero = \<lparr>embedding_tokens = 0, embedding_cost_cents = 0, llm_input_tokens = 0,
            llm_output_tokens = 0, llm_cost_cents = 0, vector_queries = 0,
            vector_cost_cents = 0, margin_cents = 0, total_cents = 0, total_credits = 0\<rparr>"

text \<open>The three float subtotals of \<^verbatim>\<open>calculate\<close>, named as in the source.\<close>

definition embedding_cost_f :: "int \<Rightarrow> rat" where
  "embedding_cost_f emb = (of_int emb / 1000) * EMBEDDING_RATE_CENTS"

definition llm_cost_f :: "int \<Rightarrow> int \<Rightarrow> rat" where
  "llm_cost_f inp outp =
     (of_int inp / 1000) * LLM_INPUT_RATE_CENTS + (of_int outp / 1000) * LLM_OUTPUT_RATE_CENTS"

definition vector_cost_f :: "int \<Rightarrow> rat" where
  "vector_cost_f vq = of_int vq * VECTOR_QUERY_RATE_CENTS"

definition subtotal_f :: "int \<Rightarrow> int \<Rightarrow> int \<Rightarrow> int \<Rightarrow> rat" where
  "subtotal_f emb inp outp vq = embedding_cost_f emb + llm_cost_f inp outp + vector_cost_f vq"

definition calculate :: "int \<Rightarrow> int \<Rightarrow> int \<Rightarrow> int \<Rightarrow> rat \<Rightarrow> CostBreakdown" where
  "calculate emb inp outp vq margin =
     (let sub = subtotal_f emb inp outp vq;
          margin_f = sub * margin;
          total_f = sub + margin_f;
          embedding_cost = (if 0 < emb then max 1 (py_round (embedding_cost_f emb)) else 0);
          llm_cost = (if 0 < inp + outp then max 1 (py_round (llm_cost_f inp outp)) else 0);
          vector_cost = (if 0 < vq then max 1 (py_round (vector_cost_f vq)) else 0);
          margin_c = (if 0 < margin \<and> 0 < sub then max 1 (py_round margin_f) else 0);
          total = (if 0 < total_f then py_round total_f else 0)
      in \<lparr>embedding_tokens = emb, embedding_cost_cents = embedding_cost,
          llm_input_tokens = inp, llm_output_tokens = outp, llm_cost_cents = llm_cost,
          vector_queries = vq, vector_cost_cents = vector_cost,
          margin_cents = margin_c, total_cents = total, total_credits = total\<rparr>)"

section \<open>Exceptions\<close>

text \<open>
  Every Python exception that the modelled code can meet is a value. \<open>External\<close> stands for
  whatever an injected collaborator (embedder, vector store, LLM-backed agent) raises.
\<close>

datatype py_error =
    AttributeError
  | TypeError
  | ValueError
  | ZeroDivisionError
  | OverflowError
  | IndexError
  | KeyError
  | External string

section \<open>Retriever (adapters/agents/retriever.py)\<close>

text \<open>
  \<^verbatim>\<open>Chunk\<close> from domain/ingestion/entities.py. The ids are UUIDs that the code only uses
  through \<^verbatim>\<open>str(...)\<close>, so they are strings here; \<^verbatim>\<open>metadata\<close> is a
  \<^verbatim>\<open>dict[str, str]\<close>, kept as an association list and read with \<open>map_of\<close>.
\<close>

record Chunk =
  chunk_id :: string
  document_id :: string
  chunk_text :: string
  position :: int
  metadata :: "(string \<times> string) list"

text \<open>
  Modelled from the spec: domain/agents/entities.py (\<^verbatim>\<open>IntentResult\<close>,
  \<^verbatim>\<open>ExtractedEntities\<close> and their enumerations) is not among the sources; the fields
  are the ones the retriever, the planner and the tests read and the spec's data model lists.
\<close>

datatype QueryType = FACTUAL | COMPARATIVE | TIMELINE | VOTING | ANALYTICAL

datatype ResponseDepth = BRIEF | STANDARD | COMPREHENSIVE

datatype RetrievalStrategy = SINGLE_FOCUS | MULTI_ENTITY | CHRONOLOGICAL | BROAD

fun strategy_value :: "RetrievalStrategy \<Rightarrow> string" where
  "strategy_value SINGLE_FOCUS = ''single_focus''"
| "strategy_value MULTI_ENTITY = ''multi_entity''"
| "strategy_value CHRONOLOGICAL = ''chronological''"
| "strategy_value BROAD = ''broad''"

record ExtractedEntities =
  parties :: "string list"
  entity_members :: "string list"
  bills :: "string list"
  topics :: "string list"
  date_from :: "string option"
  date_to :: "string option"
  document_types :: "string list"

record IntentResult =
  query_type :: QueryType
  entities :: ExtractedEntities
  expected_components :: "string list"
  retrieval_strategy :: RetrievalStrategy
  rewritten_queries :: "string list"
  confidence :: rat
  response_depth :: ResponseDepth

text \<open>The filter dictionary has at most the three keys below; an absent key is \<open>None\<close>.\<close>

record Filters =
  filter_document_type :: "string list option"
  filter_date_from :: "string option"
  filter_date_to :: "string option"

definition empty_filters :: Filters where
  "empty_filters = \<lparr>filter_document_type = None, filter_date_from = None, filter_date_to = None\<rparr>"

text \<open>Truthiness of an optional string: \<^verbatim>\<open>None\<close> and the empty string are false.\<close>

fun truthy_opt_str :: "string option \<Rightarrow> bool" where
  "truthy_opt_str None = False"
| "truthy_opt_str (Some s) = (s \<noteq> [])"

definition build_filters :: "IntentResult \<Rightarrow> Filters option" where
  "build_filters intent =
     (let e = entities intent;
          f0 = empty_filters;
          f1 = (if document_types e \<noteq> [] then f0\<lparr>filter_document_type := Some (document_types e)\<rparr>
                else f0);
          f2 = (if truthy_opt_str (date_from e) then f1\<lparr>filter_date_from := date_from e\<rparr> else f1);
          f3 = (if truthy_opt_str (date_to e) then f2\<lparr>filter_date_to := date_to e\<rparr> else f2)
      in if f3 = empty_filters then None else Some f3)"

record RetrievalResult =
  chunks :: "Chunk list"
  strategy_used :: string
  coverage :: "(string \<times> rat) list"
  is_sufficient :: bool
  warnings :: "string list"

definition context_texts :: "RetrievalResult \<Rightarrow> string list" where
  "context_texts r = map chunk_text (chunks r)"

text \<open>
  The retriever object: its two injected capabilities and its two settings. An embedding is
  opaque to the retriever, hence the type parameter. Both capabilities may raise.
\<close>

record 'e Retriever =
  embed_single :: "string \<Rightarrow> py_error + 'e"
  search :: "'e \<Rightarrow> int \<Rightarrow> Filters option \<Rightarrow> py_error + Chunk list"
  default_top_k :: int
  min_chunks_for_sufficiency :: int

text \<open>The calls made on the capabilities are recorded, in order, next to the result.\<close>

datatype 'e call = EmbedCall string | SearchCall 'e int "Filters option"

fun is_embed_call :: "'e call \<Rightarrow> bool" where
  "is_embed_call (EmbedCall q) = True"
| "is_embed_call (SearchCall v k f) = False"

definition make_result ::
  "'e Retriever \<Rightarrow> Chunk list \<Rightarrow> RetrievalStrategy \<Rightarrow> (string \<times> rat) list \<Rightarrow> string \<Rightarrow> RetrievalResult"
where
  "make_result r cs strategy cov warning =
     (let sufficient = (min_chunks_for_sufficiency r \<le> int (length cs))
      in \<lparr>chunks = cs, strategy_used = strategy_value strategy, coverage = cov,
          is_sufficient = sufficient,
          warnings = (if sufficient then [] else [warning])\<rparr>)"

definition retrieve_single_focus ::
  "'e Retriever \<Rightarrow> string \<Rightarrow> IntentResult \<Rightarrow> (py_error + RetrievalResult) \<times> 'e call list"
where
  "retrieve_single_focus r query intent =
     (case embed_single r query of
        Inl e \<Rightarrow> (Inl e, [EmbedCall query])
      | Inr embedding \<Rightarrow>
          (let filters = build_filters intent;
               calls = [EmbedCall query, SearchCall embedding (default_top_k r) filters]
           in case search r embedding (default_top_k r) filters of
                Inl e \<Rightarrow> (Inl e, calls)
              | Inr cs \<Rightarrow>
                  (Inr (make_result r cs SINGLE_FOCUS [] ''Few relevant documents found''), calls)))"

definition search_single ::
  "'e Retriever \<Rightarrow> string \<Rightarrow> IntentResult \<Rightarrow> (py_error + Chunk list) \<times> 'e call list"
where
  "search_single r query intent =
     (case embed_single r query of
        Inl e \<Rightarrow> (Inl e, [EmbedCall query])
      | Inr embedding \<Rightarrow>
          (let filters = build_filters intent;
               k = default_top_k r div 2
           in (search r embedding k filters, [EmbedCall query, SearchCall embedding k filters])))"

text \<open>The inner loop of the merge: append every chunk whose id has not been seen.\<close>

fun dedupe_chunks :: "Chunk list \<Rightarrow> Chunk list \<times> string set \<Rightarrow> Chunk list \<times> string set" where
  "dedupe_chunks [] st = st"
| "dedupe_chunks (c # cs) (all_chunks, seen_ids) =
     (if chunk_id c \<notin> seen_ids
      then dedupe_chunks cs (all_chunks @ [c], insert (chunk_id c) seen_ids)
      else dedupe_chunks cs (all_chunks, seen_ids))"

text \<open>
  The outer loop over \<^verbatim>\<open>enumerate(results)\<close>: a sub-search that raised is skipped; for
  the others the coverage entry is written first (a float division, which raises when
  \<^verbatim>\<open>default_top_k\<close> is zero) and the chunks are merged.
\<close>

fun merge_results ::
  "int \<Rightarrow> (string \<times> (py_error + Chunk list)) list
    \<Rightarrow> Chunk list \<times> string set \<times> (string \<times> rat) list
    \<Rightarrow> py_error + (Chunk list \<times> string set \<times> (string \<times> rat) list)"
where
  "merge_results k [] st = Inr st"
| "merge_results k ((rq, Inl e) # rest) st = merge_results k rest st"
| "merge_results k ((rq, Inr query_chunks) # rest) (all_chunks, seen_ids, cov) =
     (if k = 0 then Inl ZeroDivisionError
      else
        (let cov' = AList.update rq (of_nat (length query_chunks) / of_int k) cov;
             (all_chunks', seen_ids') = dedupe_chunks query_chunks (all_chunks, seen_ids)
         in merge_results k rest (all_chunks', seen_ids', cov')))"

text \<open>The slice \<^verbatim>\<open>xs[:n]\<close>; a negative bound counts from the end.\<close>

definition slice_upto :: "int \<Rightarrow> 'a list \<Rightarrow> 'a list" where
  "slice_upto n xs =
     (if 0 \<le> n then take (nat n) xs else take (nat (int (length xs) + n)) xs)"

definition effective_queries :: "string \<Rightarrow> IntentResult \<Rightarrow> string list" where
  "effective_queries query intent =
     (if rewritten_queries intent = [] then [query] else rewritten_queries intent)"

text \<open>
  \<^verbatim>\<open>asyncio.gather(..., return_exceptions=True)\<close> returns the outcomes in task order
  whatever the interleaving; the call log lists the sub-searches one after the other.
\<close>

definition retrieve_multi_entity ::
  "'e Retriever \<Rightarrow> string \<Rightarrow> IntentResult \<Rightarrow> (py_error + RetrievalResult) \<times> 'e call list"
where
  "retrieve_multi_entity r query intent =
     (let rqs = effective_queries query intent;
          outcomes = map (\<lambda>rq. search_single r rq intent) rqs;
          calls = concat (map snd outcomes);
          results = map fst outcomes
      in case merge_results (default_top_k r) (zip rqs results) ([], {}, []) of
           Inl e \<Rightarrow> (Inl e, calls)
         | Inr (all_chunks, seen_ids, cov) \<Rightarrow>
             (let cs = slice_upto (default_top_k r * 2) all_chunks
              in (Inr (make_result r cs MULTI_ENTITY cov ''Limited coverage for some entities''),
                  calls)))"

text \<open>
  The sort key of the chronological strategy,
  \<^verbatim>\<open>lambda c: c.metadata.get("date", "9999-99-99")\<close>. Strings are compared
  lexicographically, character by character.
\<close>

definition date_key :: "Chunk \<Rightarrow> string" where
  "date_key c = (case map_of (metadata c) ''date'' of None \<Rightarrow> ''9999-99-99'' | Some d \<Rightarrow> d)"

text \<open>
  \<^verbatim>\<open>sorted(chunks, key=...)\<close> is a stable sort, as \<open>sort_key\<close> is; the output of a
  stable sort is determined by the input and the key.
\<close>

definition retrieve_chronological ::
  "'e Retriever \<Rightarrow> string \<Rightarrow> IntentResult \<Rightarrow> (py_error + RetrievalResult) \<times> 'e call list"
where
  "retrieve_chronological r query intent =
     (case embed_single r query of
        Inl e \<Rightarrow> (Inl e, [EmbedCall query])
      | Inr embedding \<Rightarrow>
          (let filters = build_filters intent;
               calls = [EmbedCall query, SearchCall embedding (default_top_k r) filters]
           in case search r embedding (default_top_k r) filters of
                Inl e \<Rightarrow> (Inl e, calls)
              | Inr cs \<Rightarrow>
                  (let sorted_chunks = sort_key date_key cs
                   in (Inr (make_result r sorted_chunks CHRONOLOGICAL []
                              ''Few chronological events found''), calls))))"

definition retrieve_broad ::
  "'e Retriever \<Rightarrow> string \<Rightarrow> IntentResult \<Rightarrow> (py_error + RetrievalResult) \<times> 'e call list"
where
  "retrieve_broad r query intent =
     (case embed_single r query of
        Inl e \<Rightarrow> (Inl e, [EmbedCall query])
      | Inr embedding \<Rightarrow>
          (let dts = document_types (entities intent);
               filters = (if dts \<noteq> [] then Some (empty_filters\<lparr>filter_document_type := Some dts\<rparr>)
                          else None);
               calls = [EmbedCall query, SearchCall embedding (default_top_k r + 10) filters]
           in case search r embedding (default_top_k r + 10) filters of
                Inl e \<Rightarrow> (Inl e, calls)
              | Inr cs \<Rightarrow>
                  (Inr (make_result r cs BROAD [] ''Limited diverse content found''), calls)))"

definition retrieve ::
  "'e Retriever \<Rightarrow> string \<Rightarrow> IntentResult \<Rightarrow> (py_error + RetrievalResult) \<times> 'e call list"
where
  "retrieve r query intent =
     (case retrieval_strategy intent of
        MULTI_ENTITY \<Rightarrow> retrieve_multi_entity r query intent
      | CHRONOLOGICAL \<Rightarrow> retrieve_chronological r query intent
      | BROAD \<Rightarrow> retrieve_broad r query intent
      | SINGLE_FOCUS \<Rightarrow> retrieve_single_focus r query intent)"




section \<open>Raw component objects: JSON values under Python's dynamic operations\<close>

text \<open>
  The composer hands \<^verbatim>\<open>parse_component\<close> whatever \<^verbatim>\<open>json.loads\<close> produced. A JSON
  object is a dictionary with distinct string keys, kept in insertion order. JSON numbers
  are Python ints or floats; floats are idealised as rationals, so the non-finite floats
  are outside the model. Strings are sequences of characters in the ASCII range.
\<close>

datatype json =
    JNull
  | JBool bool
  | JInt int
  | JFloat rat
  | JStr string
  | JArr "json list"
  | JObj "(string \<times> json) list"

text \<open>
  Three builtins are not defined character by character: what \<^verbatim>\<open>float\<close> and
  \<^verbatim>\<open>int\<close> make of a string (\<open>None\<close> is a \<^verbatim>\<open>ValueError\<close>), and the text that
  \<^verbatim>\<open>str\<close> gives for a value that is not already a string. They are parameters of the
  model; every theorem holds for any choice of them.
\<close>

record builtins =
  float_of_str :: "string \<Rightarrow> rat option"
  int_of_str :: "string \<Rightarrow> int option"
  repr :: "json \<Rightarrow> string"

text \<open>Sequencing of computations that may raise.\<close>

fun and_then :: "'e + 'a \<Rightarrow> ('a \<Rightarrow> 'e + 'b) \<Rightarrow> 'e + 'b" where
  "and_then (Inl e) f = Inl e"
| "and_then (Inr x) f = f x"

fun map_err :: "('a \<Rightarrow> 'e + 'b) \<Rightarrow> 'a list \<Rightarrow> 'e + 'b list" where
  "map_err f [] = Inr []"
| "map_err f (x # xs) =
     (case f x of
        Inl e \<Rightarrow> Inl e
      | Inr y \<Rightarrow> (case map_err f xs of Inl e \<Rightarrow> Inl e | Inr ys \<Rightarrow> Inr (y # ys)))"

fun filter_err :: "('a \<Rightarrow> 'e + bool) \<Rightarrow> 'a list \<Rightarrow> 'e + 'a list" where
  "filter_err p [] = Inr []"
| "filter_err p (x # xs) =
     (case p x of
        Inl e \<Rightarrow> Inl e
      | Inr b \<Rightarrow>
          (case filter_err p xs of
             Inl e \<Rightarrow> Inl e
           | Inr ys \<Rightarrow> Inr (if b then x # ys else ys)))"

text \<open>\<^verbatim>\<open>d.get(key, default)\<close>: only a dictionary has the method.\<close>

fun dict_get :: "json \<Rightarrow> string \<Rightarrow> json \<Rightarrow> py_error + json" where
  "dict_get (JObj kvs) k d = Inr (case map_of kvs k of None \<Rightarrow> d | Some v \<Rightarrow> v)"
| "dict_get v k d = Inl AttributeError"

text \<open>Truth value of an object, as \<^verbatim>\<open>if x\<close>, \<^verbatim>\<open>not x\<close> and \<^verbatim>\<open>bool(x)\<close> see it.\<close>

fun truthy :: "json \<Rightarrow> bool" where
  "truthy JNull = False"
| "truthy (JBool b) = b"
| "truthy (JInt i) = (i \<noteq> 0)"
| "truthy (JFloat r) = (r \<noteq> 0)"
| "truthy (JStr s) = (s \<noteq> [])"
| "truthy (JArr xs) = (xs \<noteq> [])"
| "truthy (JObj kvs) = (kvs \<noteq> [])"

fun py_len :: "json \<Rightarrow> py_error + nat" where
  "py_len (JStr s) = Inr (length s)"
| "py_len (JArr xs) = Inr (length xs)"
| "py_len (JObj kvs) = Inr (length kvs)"
| "py_len v = Inl TypeError"

text \<open>
  The items a \<^verbatim>\<open>for\<close> loop or a comprehension runs over: the elements of a list, the
  characters of a string, the keys of a dictionary.
\<close>

fun py_iter :: "json \<Rightarrow> py_error + json list" where
  "py_iter (JArr xs) = Inr xs"
| "py_iter (JStr s) = Inr (map (\<lambda>c. JStr [c]) s)"
| "py_iter (JObj kvs) = Inr (map (\<lambda>kv. JStr (fst kv)) kvs)"
| "py_iter v = Inl TypeError"

text \<open>\<^verbatim>\<open>x[0]\<close>.\<close>

fun py_first :: "json \<Rightarrow> py_error + json" where
  "py_first (JArr []) = Inl IndexError"
| "py_first (JArr (x # xs)) = Inr x"
| "py_first (JStr []) = Inl IndexError"
| "py_first (JStr (c # cs)) = Inr (JStr [c])"
| "py_first (JObj kvs) = Inl KeyError"
| "py_first v = Inl TypeError"

text \<open>
  \<^verbatim>\<open>float(x)\<close>. An int beyond the range of a double raises \<^verbatim>\<open>OverflowError\<close>; the
  bound is the least magnitude that rounds to infinity.
\<close>

definition float_overflow_bound :: int where
  "float_overflow_bound = 2 ^ 1024 - 2 ^ 970"

fun py_float :: "builtins \<Rightarrow> json \<Rightarrow> py_error + rat" where
  "py_float B JNull = Inl TypeError"
| "py_float B (JBool b) = Inr (if b then 1 else 0)"
| "py_float B (JInt i) = (if float_overflow_bound \<le> \<bar>i\<bar> then Inl OverflowError else Inr (of_int i))"
| "py_float B (JFloat r) = Inr r"
| "py_float B (JStr s) = (case float_of_str B s of None \<Rightarrow> Inl ValueError | Some r \<Rightarrow> Inr r)"
| "py_float B (JArr xs) = Inl TypeError"
| "py_float B (JObj kvs) = Inl TypeError"

text \<open>\<^verbatim>\<open>int(x)\<close>; a float is truncated towards zero.\<close>

definition truncate :: "rat \<Rightarrow> int" where
  "truncate r = (if 0 \<le> r then \<lfloor>r\<rfloor> else \<lceil>r\<rceil>)"

fun py_int :: "builtins \<Rightarrow> json \<Rightarrow> py_error + int" where
  "py_int B JNull = Inl TypeError"
| "py_int B (JBool b) = Inr (if b then 1 else 0)"
| "py_int B (JInt i) = Inr i"
| "py_int B (JFloat r) = Inr (truncate r)"
| "py_int B (JStr s) = (case int_of_str B s of None \<Rightarrow> Inl ValueError | Some i \<Rightarrow> Inr i)"
| "py_int B (JArr xs) = Inl TypeError"
| "py_int B (JObj kvs) = Inl TypeError"

fun py_str :: "builtins \<Rightarrow> json \<Rightarrow> string" where
  "py_str B (JStr s) = s"
| "py_str B v = repr B v"

text \<open>The string methods used on the component type and on text content.\<close>

definition lower_char :: "char \<Rightarrow> char" where
  "lower_char c =
     (let n = of_char c :: nat in if 65 \<le> n \<and> n \<le> 90 then char_of (n + 32) else c)"

definition lower :: "string \<Rightarrow> string" where
  "lower s = map lower_char s"

definition replace_hyphens :: "string \<Rightarrow> string" where
  "replace_hyphens s = map (\<lambda>c. if c = CHR ''-'' then CHR ''_'' else c) s"

definition is_space :: "char \<Rightarrow> bool" where
  "is_space c = (let n = of_char c :: nat in (9 \<le> n \<and> n \<le> 13) \<or> (28 \<le> n \<and> n \<le> 32))"

definition strip :: "string \<Rightarrow> string" where
  "strip s = rev (dropWhile is_space (rev (dropWhile is_space s)))"

text \<open>A method of \<^verbatim>\<open>str\<close> called on some other object raises \<^verbatim>\<open>AttributeError\<close>.\<close>

fun str_method :: "(string \<Rightarrow> string) \<Rightarrow> json \<Rightarrow> py_error + string" where
  "str_method f (JStr s) = Inr (f s)"
| "str_method f v = Inl AttributeError"

section \<open>Component constraints (adapters/llm/constraints.py)\<close>

datatype ConstraintViolation = INSUFFICIENT_DATA | INVALID_STRUCTURE | POOR_FIT

text \<open>
  The \<^verbatim>\<open>reason\<close> of a violation is a formatted message, read only by the log. It is
  kept as the message's template together with the values formatted into it.
\<close>

datatype reason =
    ChartNoSeries
  | ChartTooFewPoints nat
  | ChartPointMissingValue
  | ChartPointNonNumeric json
  | PieTooManySlices nat
  | PieNegativeValue
  | LineTooFewPoints nat
  | ComparisonTooFewItems nat
  | ComparisonNoAttributes
  | TimelineTooFewEvents nat
  | TableTooFewColumns nat
  | TableTooFewRows nat
  | VotingNoVoteData
  | MembersNoValidMembers
  | TextBlockNoContent
  | NoticeNoMessage
  | ValidationError py_error

record ValidationResult =
  is_valid :: bool
  violation :: "ConstraintViolation option"
  reason :: "reason option"
  suggestion :: "string option"

definition valid :: ValidationResult where
  "valid = \<lparr>is_valid = True, violation = None, reason = None, suggestion = None\<rparr>"

definition invalid :: "ConstraintViolation \<Rightarrow> reason \<Rightarrow> string option \<Rightarrow> ValidationResult" where
  "invalid v r s = \<lparr>is_valid = False, violation = Some v, reason = Some r, suggestion = s\<rparr>"

definition CHART_MIN_DATA_POINTS :: nat where "CHART_MIN_DATA_POINTS = 2"
definition CHART_MAX_DATA_POINTS :: nat where "CHART_MAX_DATA_POINTS = 20"
definition PIE_MAX_SLICES :: nat where "PIE_MAX_SLICES = 7"
definition LINE_MIN_DATA_POINTS :: nat where "LINE_MIN_DATA_POINTS = 3"
definition COMPARISON_MIN_ITEMS :: nat where "COMPARISON_MIN_ITEMS = 2"
definition COMPARISON_MAX_ITEMS :: nat where "COMPARISON_MAX_ITEMS = 5"
definition COMPARISON_MIN_ATTRIBUTES :: nat where "COMPARISON_MIN_ATTRIBUTES = 1"
definition TIMELINE_MIN_EVENTS :: nat where "TIMELINE_MIN_EVENTS = 2"
definition TABLE_MIN_ROWS :: nat where "TABLE_MIN_ROWS = 2"
definition TABLE_MIN_COLUMNS :: nat where "TABLE_MIN_COLUMNS = 2"
definition MEMBERS_MIN_COUNT :: nat where "MEMBERS_MIN_COUNT = 1"

subsection \<open>validate_chart\<close>

text \<open>\<^verbatim>\<open>len(s.get("data", []))\<close> for one series.\<close>

definition series_len :: "json \<Rightarrow> py_error + nat" where
  "series_len s = and_then (dict_get s ''data'' (JArr [])) py_len"

text \<open>\<^verbatim>\<open>s.get("data", [])\<close> as the items a loop runs over.\<close>

definition series_points :: "json \<Rightarrow> py_error + json list" where
  "series_points s = and_then (dict_get s ''data'' (JArr [])) py_iter"

text \<open>
  The numeric check of one series' points. \<open>Inr None\<close>: every point passed;
  \<open>Inr (Some v)\<close>: the function returns the violation \<open>v\<close>. The \<^verbatim>\<open>try\<close> around
  \<^verbatim>\<open>float(value)\<close> catches \<^verbatim>\<open>TypeError\<close> and \<^verbatim>\<open>ValueError\<close> only.
\<close>

fun check_points :: "builtins \<Rightarrow> json list \<Rightarrow> py_error + ValidationResult option" where
  "check_points B [] = Inr None"
| "check_points B (point # rest) =
     (case dict_get point ''value'' JNull of
        Inl e \<Rightarrow> Inl e
      | Inr v \<Rightarrow>
          if v = JNull then Inr (Some (invalid INVALID_STRUCTURE ChartPointMissingValue None))
          else (case py_float B v of
                  Inl TypeError \<Rightarrow> Inr (Some (invalid INVALID_STRUCTURE (ChartPointNonNumeric v) None))
                | Inl ValueError \<Rightarrow> Inr (Some (invalid INVALID_STRUCTURE (ChartPointNonNumeric v) None))
                | Inl e \<Rightarrow> Inl e
                | Inr x \<Rightarrow> check_points B rest))"

fun check_series_values :: "builtins \<Rightarrow> json list \<Rightarrow> py_error + ValidationResult option" where
  "check_series_values B [] = Inr None"
| "check_series_values B (s # rest) =
     (case series_points s of
        Inl e \<Rightarrow> Inl e
      | Inr points \<Rightarrow>
          (case check_points B points of
             Inl e \<Rightarrow> Inl e
           | Inr (Some v) \<Rightarrow> Inr (Some v)
           | Inr None \<Rightarrow> check_series_values B rest))"

text \<open>The loop over a pie chart's points: \<^verbatim>\<open>float(point.get("value", 0)) < 0\<close>.\<close>

fun check_pie_points :: "builtins \<Rightarrow> json list \<Rightarrow> py_error + ValidationResult option" where
  "check_pie_points B [] = Inr None"
| "check_pie_points B (point # rest) =
     (case and_then (dict_get point ''value'' (JInt 0)) (py_float B) of
        Inl e \<Rightarrow> Inl e
      | Inr x \<Rightarrow>
          if x < 0 then Inr (Some (invalid POOR_FIT PieNegativeValue (Some ''bar'')))
          else check_pie_points B rest)"

fun check_line_series :: "json list \<Rightarrow> py_error + ValidationResult option" where
  "check_line_series [] = Inr None"
| "check_line_series (s # rest) =
     (case series_len s of
        Inl e \<Rightarrow> Inl e
      | Inr n \<Rightarrow>
          if n < LINE_MIN_DATA_POINTS then Inr (Some (invalid POOR_FIT (LineTooFewPoints n) (Some ''bar'')))
          else check_line_series rest)"

text \<open>
  The chart-type-specific part. \<^verbatim>\<open>series[0] if series else {}\<close> is reached with a true
  \<^verbatim>\<open>series\<close> only, so the alternative is never taken.
\<close>

definition check_chart_type :: "builtins \<Rightarrow> json \<Rightarrow> json \<Rightarrow> json list \<Rightarrow> py_error + ValidationResult" where
  "check_chart_type B chart_type series series_items =
     (if chart_type = JStr ''pie'' \<or> chart_type = JStr ''doughnut'' then
        (case (if truthy series then py_first series else Inr (JObj [])) of
           Inl e \<Rightarrow> Inl e
         | Inr first_series \<Rightarrow>
             (case dict_get first_series ''data'' (JArr []) of
                Inl e \<Rightarrow> Inl e
              | Inr points \<Rightarrow>
                  (case py_len points of
                     Inl e \<Rightarrow> Inl e
                   | Inr n \<Rightarrow>
                       if PIE_MAX_SLICES < n
                       then Inr (invalid POOR_FIT (PieTooManySlices n) (Some ''bar''))
                       else (case and_then (py_iter points) (check_pie_points B) of
                               Inl e \<Rightarrow> Inl e
                             | Inr (Some v) \<Rightarrow> Inr v
                             | Inr None \<Rightarrow> Inr valid))))
      else if chart_type = JStr ''line'' then
        (case check_line_series series_items of
           Inl e \<Rightarrow> Inl e
         | Inr (Some v) \<Rightarrow> Inr v
         | Inr None \<Rightarrow> Inr valid)
      else Inr valid)"

definition validate_chart :: "builtins \<Rightarrow> json \<Rightarrow> py_error + ValidationResult" where
  "validate_chart B data =
     and_then (dict_get data ''series'' (JArr [])) (\<lambda>series.
     and_then (dict_get data ''chart_type'' (JStr ''bar'')) (\<lambda>chart_type.
       if \<not> truthy series
       then Inr (invalid INSUFFICIENT_DATA ChartNoSeries (Some ''text_block''))
       else
         and_then (py_iter series) (\<lambda>series_items.
         and_then (map_err series_len series_items) (\<lambda>lens.
           let total_points = sum_list lens in
           if total_points < CHART_MIN_DATA_POINTS
           then Inr (invalid INSUFFICIENT_DATA (ChartTooFewPoints total_points) (Some ''text_block''))
           else
             (case check_series_values B series_items of
                Inl e \<Rightarrow> Inl e
              | Inr (Some v) \<Rightarrow> Inr v
              | Inr None \<Rightarrow> check_chart_type B chart_type series series_items)))))"

subsection \<open>validate_comparison\<close>

definition has_name :: "json \<Rightarrow> py_error + bool" where
  "has_name i = and_then (dict_get i ''name'' JNull) (\<lambda>n. Inr (truthy n))"

text \<open>\<^verbatim>\<open>a.get("name") and a.get("values")\<close>.\<close>

definition has_name_and_values :: "json \<Rightarrow> py_error + bool" where
  "has_name_and_values a =
     and_then (dict_get a ''name'' JNull) (\<lambda>n.
       if truthy n then and_then (dict_get a ''values'' JNull) (\<lambda>v. Inr (truthy v))
       else Inr False)"

text \<open>
  The last loop only logs a warning when an attribute's number of values differs from the
  number of items; what remains of it is that \<^verbatim>\<open>len(values)\<close> may raise.
\<close>

definition attribute_values_len :: "json \<Rightarrow> py_error + nat" where
  "attribute_values_len attr = and_then (dict_get attr ''values'' (JArr [])) py_len"

definition validate_comparison :: "json \<Rightarrow> py_error + ValidationResult" where
  "validate_comparison data =
     and_then (dict_get data ''items'' (JArr [])) (\<lambda>items.
     and_then (dict_get data ''attributes'' (JArr [])) (\<lambda>attributes.
     and_then (and_then (py_iter items) (filter_err has_name)) (\<lambda>valid_items.
     and_then (and_then (py_iter attributes) (filter_err has_name_and_values)) (\<lambda>valid_attributes.
       if length valid_items < COMPARISON_MIN_ITEMS
       then Inr (invalid INSUFFICIENT_DATA (ComparisonTooFewItems (length valid_items))
                   (Some ''text_block''))
       else if length valid_attributes < COMPARISON_MIN_ATTRIBUTES
       then Inr (invalid INSUFFICIENT_DATA ComparisonNoAttributes (Some ''text_block''))
       else and_then (map_err attribute_values_len valid_attributes) (\<lambda>lens. Inr valid)))))"

subsection \<open>The other validators\<close>

text \<open>\<^verbatim>\<open>e.get("date") or e.get("label")\<close>, and the same for a column's header and key.\<close>

definition has_either :: "string \<Rightarrow> string \<Rightarrow> json \<Rightarrow> py_error + bool" where
  "has_either k1 k2 e =
     and_then (dict_get e k1 JNull) (\<lambda>a.
       if truthy a then Inr True
       else and_then (dict_get e k2 JNull) (\<lambda>b. Inr (truthy b)))"

definition validate_timeline :: "json \<Rightarrow> py_error + ValidationResult" where
  "validate_timeline data =
     and_then (dict_get data ''events'' (JArr [])) (\<lambda>events.
     and_then (and_then (py_iter events) (filter_err (has_either ''date'' ''label''))) (\<lambda>valid_events.
       if length valid_events < TIMELINE_MIN_EVENTS
       then Inr (invalid INSUFFICIENT_DATA (TimelineTooFewEvents (length valid_events))
                   (Some ''text_block''))
       else Inr valid))"

text \<open>\<^verbatim>\<open>isinstance(r, dict) and r\<close>.\<close>

fun is_nonempty_dict :: "json \<Rightarrow> bool" where
  "is_nonempty_dict (JObj kvs) = (kvs \<noteq> [])"
| "is_nonempty_dict v = False"

definition validate_data_table :: "json \<Rightarrow> py_error + ValidationResult" where
  "validate_data_table data =
     and_then (dict_get data ''columns'' (JArr [])) (\<lambda>columns.
     and_then (dict_get data ''rows'' (JArr [])) (\<lambda>rows.
     and_then (and_then (py_iter columns) (filter_err (has_either ''header'' ''key''))) (\<lambda>valid_columns.
     and_then (py_iter rows) (\<lambda>row_items.
       let valid_rows = filter is_nonempty_dict row_items in
       if length valid_columns < TABLE_MIN_COLUMNS
       then Inr (invalid INSUFFICIENT_DATA (TableTooFewColumns (length valid_columns))
                   (Some ''text_block''))
       else if length valid_rows < TABLE_MIN_ROWS
       then Inr (invalid INSUFFICIENT_DATA (TableTooFewRows (length valid_rows))
                   (Some ''text_block''))
       else Inr valid))))"

definition has_party :: "json \<Rightarrow> py_error + bool" where
  "has_party p = and_then (dict_get p ''party'' JNull) (\<lambda>n. Inr (truthy n))"

definition int_field :: "builtins \<Rightarrow> json \<Rightarrow> string \<Rightarrow> int \<Rightarrow> py_error + int" where
  "int_field B d k dflt = and_then (dict_get d k (JInt dflt)) (py_int B)"

text \<open>
  \<^verbatim>\<open>any(int(p.get("votes_for", 0)) > 0 or int(p.get("votes_against", 0)) > 0
  for p in party_breakdown if p.get("party"))\<close>, which stops at the first true element.
\<close>

fun any_party_votes :: "builtins \<Rightarrow> json list \<Rightarrow> py_error + bool" where
  "any_party_votes B [] = Inr False"
| "any_party_votes B (p # ps) =
     (case has_party p of
        Inl e \<Rightarrow> Inl e
      | Inr False \<Rightarrow> any_party_votes B ps
      | Inr True \<Rightarrow>
          (case int_field B p ''votes_for'' 0 of
             Inl e \<Rightarrow> Inl e
           | Inr vf \<Rightarrow>
               if 0 < vf then Inr True
               else (case int_field B p ''votes_against'' 0 of
                       Inl e \<Rightarrow> Inl e
                     | Inr va \<Rightarrow> if 0 < va then Inr True else any_party_votes B ps)))"

definition validate_voting_breakdown :: "builtins \<Rightarrow> json \<Rightarrow> py_error + ValidationResult" where
  "validate_voting_breakdown B data =
     and_then (int_field B data ''total_for'' 0) (\<lambda>total_for.
     and_then (int_field B data ''total_against'' 0) (\<lambda>total_against.
     and_then (dict_get data ''party_breakdown'' (JArr [])) (\<lambda>party_breakdown.
       let has_totals = (0 < total_for \<or> 0 < total_against) in
       and_then (and_then (py_iter party_breakdown) (any_party_votes B)) (\<lambda>has_party_votes.
         if \<not> has_totals \<and> \<not> has_party_votes
         then Inr (invalid INSUFFICIENT_DATA VotingNoVoteData (Some ''text_block''))
         else and_then (and_then (py_iter party_breakdown) (filter_err has_party))
                (\<lambda>valid_parties. Inr valid)))))"

definition validate_member_profiles :: "json \<Rightarrow> py_error + ValidationResult" where
  "validate_member_profiles data =
     and_then (dict_get data ''members'' (JArr [])) (\<lambda>members.
     and_then (and_then (py_iter members) (filter_err has_name)) (\<lambda>valid_members.
       if length valid_members < MEMBERS_MIN_COUNT
       then Inr (invalid INSUFFICIENT_DATA MembersNoValidMembers None)
       else Inr valid))"

definition stripped_field :: "json \<Rightarrow> string \<Rightarrow> py_error + string" where
  "stripped_field data k = and_then (dict_get data k (JStr [])) (str_method strip)"

definition validate_text_block :: "json \<Rightarrow> py_error + ValidationResult" where
  "validate_text_block data =
     and_then (stripped_field data ''content'') (\<lambda>content.
       if content = [] then Inr (invalid INSUFFICIENT_DATA TextBlockNoContent None)
       else Inr valid)"

definition validate_notice :: "json \<Rightarrow> py_error + ValidationResult" where
  "validate_notice data =
     and_then (stripped_field data ''message'') (\<lambda>message.
       if message = [] then Inr (invalid INSUFFICIENT_DATA NoticeNoMessage None)
       else Inr valid)"

definition COMPONENT_VALIDATORS ::
  "builtins \<Rightarrow> (string \<times> (json \<Rightarrow> py_error + ValidationResult)) list"
where
  "COMPONENT_VALIDATORS B =
     [(''chart'', validate_chart B),
      (''comparison'', validate_comparison),
      (''timeline'', validate_timeline),
      (''data_table'', validate_data_table),
      (''voting_breakdown'', validate_voting_breakdown B),
      (''member_profiles'', validate_member_profiles),
      (''text_block'', validate_text_block),
      (''notice'', validate_notice)]"

text \<open>An exception inside a validator becomes an \<^verbatim>\<open>invalid_structure\<close> result.\<close>

definition validate_component :: "builtins \<Rightarrow> string \<Rightarrow> json \<Rightarrow> ValidationResult" where
  "validate_component B component_type data =
     (case map_of (COMPONENT_VALIDATORS B) component_type of
        None \<Rightarrow> valid
      | Some validator \<Rightarrow>
          (case validator data of
             Inl e \<Rightarrow> invalid INVALID_STRUCTURE (ValidationError e) None
           | Inr res \<Rightarrow> res))"

section \<open>Typed components (domain/rag/entities.py)\<close>

text \<open>
  The dataclasses of the response. A field typed \<^verbatim>\<open>str | None\<close> that the parser fills
  with \<^verbatim>\<open>data.get(...)\<close> holds whatever value the raw object had, so it is a \<open>json\<close>
  here (\<open>JNull\<close> for \<^verbatim>\<open>None\<close>). The \<^verbatim>\<open>sources\<close> fields, which nothing in the
  pipeline fills, are left out. A component id is a fresh \<^verbatim>\<open>uuid4\<close>; ids are drawn
  from a counter.
\<close>

datatype TextFormat = PLAIN | MARKDOWN

datatype ChartType = BAR | LINE | PIE | DOUGHNUT | HORIZONTAL_BAR | STACKED_BAR

datatype NoticeLevel = INFO | WARNING | IMPORTANT

record TextBlock =
  tb_content :: string
  tb_title :: json
  tb_format :: TextFormat

record ChartDataPoint =
  dp_label :: string
  dp_value :: rat
  dp_category :: json

record ChartSeries =
  cs_name :: json
  cs_data :: "ChartDataPoint list"

record Chart =
  chart_type :: ChartType
  chart_series :: "ChartSeries list"
  chart_title :: json
  x_axis_label :: json
  y_axis_label :: json
  chart_caption :: json

record TimelineEvent =
  ev_date :: string
  ev_label :: string
  ev_description :: json
  ev_reference_url :: json
  ev_significance :: int

record Timeline =
  tl_events :: "TimelineEvent list"
  tl_title :: json
  tl_caption :: json

record ComparisonItem =
  item_name :: string
  item_description :: json

record ComparisonAttribute =
  attr_name :: string
  attr_values :: "string list"

record Comparison =
  cmp_items :: "ComparisonItem list"
  cmp_attributes :: "ComparisonAttribute list"
  cmp_title :: json
  cmp_caption :: json

record TableColumn =
  col_header :: string
  col_key :: string
  col_sortable :: bool
  col_align :: string

record DataTable =
  dt_columns :: "TableColumn list"
  dt_rows :: "(string \<times> string) list list"
  dt_title :: json
  dt_caption :: json

record Notice =
  nt_message :: string
  nt_level :: NoticeLevel
  nt_title :: json

record MemberProfile =
  mp_member_id :: string
  mp_name :: string
  mp_party :: string
  mp_constituency :: json
  mp_roles :: "json list"
  mp_photo_url :: json
  mp_biography :: json
  mp_profile_url :: json

record MemberProfiles =
  mps_members :: "MemberProfile list"
  mps_title :: json
  mps_caption :: json

record PartyVote =
  pv_party :: string
  pv_votes_for :: int
  pv_votes_against :: int
  pv_abstentions :: int
  pv_not_voting :: int

record VotingBreakdown =
  vb_total_for :: int
  vb_total_against :: int
  vb_party_breakdown :: "PartyVote list"
  vb_title :: json
  vb_date :: json
  vb_total_abstentions :: int
  vb_result :: json
  vb_caption :: json

datatype ComponentContent =
    TextBlockContent TextBlock
  | ChartContent Chart
  | TimelineContent Timeline
  | ComparisonContent Comparison
  | DataTableContent DataTable
  | NoticeContent Notice
  | MemberProfilesContent MemberProfiles
  | VotingBreakdownContent VotingBreakdown

record Component =
  comp_id :: nat
  content :: ComponentContent
  comp_size :: json

text \<open>\<^verbatim>\<open>Component.create\<close>, given the id that \<^verbatim>\<open>uuid4\<close> draws.\<close>

definition create :: "ComponentContent \<Rightarrow> json \<Rightarrow> nat \<Rightarrow> Component" where
  "create c sz fresh = \<lparr>comp_id = fresh, content = c, comp_size = sz\<rparr>"

record Section =
  component_ids :: "nat list"
  section_title :: json
  section_layout :: json

record Layout =
  sections :: "Section list"
  layout_title :: json
  layout_subtitle :: json

section \<open>Component parsing (adapters/llm/components.py)\<close>

definition TYPE_ALIASES :: "(string \<times> string) list" where
  "TYPE_ALIASES =
     [(''text'', ''text_block''),
      (''textblock'', ''text_block''),
      (''text-block'', ''text_block''),
      (''paragraph'', ''text_block''),
      (''voting'', ''voting_breakdown''),
      (''vote'', ''voting_breakdown''),
      (''vote_breakdown'', ''voting_breakdown''),
      (''votes'', ''voting_breakdown''),
      (''table'', ''data_table''),
      (''datatable'', ''data_table''),
      (''data-table'', ''data_table''),
      (''compare'', ''comparison''),
      (''members'', ''member_profiles''),
      (''member'', ''member_profiles''),
      (''profiles'', ''member_profiles''),
      (''memberprofiles'', ''member_profiles''),
      (''member-profiles'', ''member_profiles''),
      (''graph'', ''chart''),
      (''bar_chart'', ''chart''),
      (''pie_chart'', ''chart''),
      (''line_chart'', ''chart''),
      (''events'', ''timeline''),
      (''history'', ''timeline''),
      (''alert'', ''notice''),
      (''warning'', ''notice''),
      (''info'', ''notice'')]"

text \<open>The elements of a list of optional results that are present.\<close>

fun somes :: "'a option list \<Rightarrow> 'a list" where
  "somes [] = []"
| "somes (None # xs) = somes xs"
| "somes (Some x # xs) = x # somes xs"

text \<open>
  \<^verbatim>\<open>ChartType(chart_type_str)\<close>: the member with that value; \<open>None\<close> is the
  \<^verbatim>\<open>ValueError\<close> of any other value.
\<close>

definition chart_type_of :: "json \<Rightarrow> ChartType option" where
  "chart_type_of v =
     (if v = JStr ''bar'' then Some BAR
      else if v = JStr ''line'' then Some LINE
      else if v = JStr ''pie'' then Some PIE
      else if v = JStr ''doughnut'' then Some DOUGHNUT
      else if v = JStr ''horizontal_bar'' then Some HORIZONTAL_BAR
      else if v = JStr ''stacked_bar'' then Some STACKED_BAR
      else None)"

text \<open>
  Each branch of \<^verbatim>\<open>parse_component\<close> is a function to the content it builds;
  \<open>Inr None\<close> is the branch's \<^verbatim>\<open>return None\<close>.
\<close>

definition parse_text_block :: "json \<Rightarrow> py_error + ComponentContent option" where
  "parse_text_block data =
     and_then (stripped_field data ''content'') (\<lambda>c.
     and_then (dict_get data ''title'' JNull) (\<lambda>t.
       Inr (Some (TextBlockContent \<lparr>tb_content = c, tb_title = t, tb_format = MARKDOWN\<rparr>))))"

definition parse_notice :: "json \<Rightarrow> py_error + ComponentContent option" where
  "parse_notice data =
     and_then (stripped_field data ''message'') (\<lambda>m.
     and_then (dict_get data ''level'' (JStr ''info'')) (\<lambda>level_str.
       let level = (if level_str = JStr ''warning'' then WARNING
                    else if level_str = JStr ''important'' then IMPORTANT
                    else INFO) in
       and_then (dict_get data ''title'' JNull) (\<lambda>t.
         Inr (Some (NoticeContent \<lparr>nt_message = m, nt_level = level, nt_title = t\<rparr>)))))"

definition parse_data_point :: "builtins \<Rightarrow> json \<Rightarrow> py_error + ChartDataPoint" where
  "parse_data_point B d =
     and_then (dict_get d ''label'' (JStr [])) (\<lambda>l.
     and_then (and_then (dict_get d ''value'' (JInt 0)) (py_float B)) (\<lambda>v.
     and_then (dict_get d ''category'' JNull) (\<lambda>c.
       Inr \<lparr>dp_label = py_str B l, dp_value = v, dp_category = c\<rparr>)))"

text \<open>One round of the loop over \<^verbatim>\<open>series_data\<close>: a series without points is not appended.\<close>

definition parse_series :: "builtins \<Rightarrow> json \<Rightarrow> py_error + ChartSeries option" where
  "parse_series B s =
     and_then (series_points s) (\<lambda>ds.
     and_then (map_err (parse_data_point B) ds) (\<lambda>data_points.
       if data_points \<noteq> []
       then and_then (dict_get s ''name'' (JStr [])) (\<lambda>n.
              Inr (Some \<lparr>cs_name = n, cs_data = data_points\<rparr>))
       else Inr None))"

definition parse_chart :: "builtins \<Rightarrow> json \<Rightarrow> py_error + ComponentContent option" where
  "parse_chart B data =
     and_then (dict_get data ''chart_type'' (JStr ''bar'')) (\<lambda>chart_type_str.
       let ct = (case chart_type_of chart_type_str of None \<Rightarrow> BAR | Some t \<Rightarrow> t) in
       and_then (dict_get data ''series'' (JArr [])) (\<lambda>series_data.
       and_then (and_then (py_iter series_data) (map_err (parse_series B))) (\<lambda>parsed.
         let series = somes parsed in
         if series = [] then Inr None
         else
           and_then (dict_get data ''title'' JNull) (\<lambda>t.
           and_then (dict_get data ''x_axis_label'' JNull) (\<lambda>x.
           and_then (dict_get data ''y_axis_label'' JNull) (\<lambda>y.
           and_then (dict_get data ''caption'' JNull) (\<lambda>c.
             Inr (Some (ChartContent
               \<lparr>chart_type = ct, chart_series = series, chart_title = t,
                x_axis_label = x, y_axis_label = y, chart_caption = c\<rparr>)))))))))"

text \<open>One element of the comprehension over the events, with its filter.\<close>

definition parse_event :: "builtins \<Rightarrow> json \<Rightarrow> py_error + TimelineEvent option" where
  "parse_event B e =
     and_then (has_either ''date'' ''label'' e) (\<lambda>keep.
       if \<not> keep then Inr None
       else
         and_then (dict_get e ''date'' (JStr [])) (\<lambda>d.
         and_then (dict_get e ''label'' (JStr [])) (\<lambda>l.
         and_then (dict_get e ''description'' JNull) (\<lambda>ds.
         and_then (dict_get e ''reference_url'' JNull) (\<lambda>u.
         and_then (int_field B e ''significance'' 3) (\<lambda>sg.
           Inr (Some \<lparr>ev_date = py_str B d, ev_label = py_str B l, ev_description = ds,
                       ev_reference_url = u, ev_significance = sg\<rparr>)))))))"

definition parse_timeline :: "builtins \<Rightarrow> json \<Rightarrow> py_error + ComponentContent option" where
  "parse_timeline B data =
     and_then (dict_get data ''events'' (JArr [])) (\<lambda>events_data.
     and_then (and_then (py_iter events_data) (map_err (parse_event B))) (\<lambda>parsed.
       let events = somes parsed in
       if events = [] then Inr None
       else
         and_then (dict_get data ''title'' JNull) (\<lambda>t.
         and_then (dict_get data ''caption'' JNull) (\<lambda>c.
           Inr (Some (TimelineContent \<lparr>tl_events = events, tl_title = t, tl_caption = c\<rparr>))))))"

definition parse_column :: "builtins \<Rightarrow> json \<Rightarrow> py_error + TableColumn option" where
  "parse_column B c =
     and_then (has_either ''header'' ''key'' c) (\<lambda>keep.
       if \<not> keep then Inr None
       else
         and_then (dict_get c ''header'' (JStr [])) (\<lambda>h.
         and_then (dict_get c ''key'' (JStr [])) (\<lambda>k.
         and_then (dict_get c ''sortable'' (JBool False)) (\<lambda>s.
         and_then (dict_get c ''align'' (JStr ''left'')) (\<lambda>a.
           Inr (Some \<lparr>col_header = py_str B h, col_key = py_str B k, col_sortable = truthy s,
                       col_align = py_str B a\<rparr>))))))"

text \<open>\<^verbatim>\<open>{str(k): str(v) for k, v in row.items()}\<close> for a row that is a non-empty dictionary.\<close>

fun parse_row :: "builtins \<Rightarrow> json \<Rightarrow> (string \<times> string) list option" where
  "parse_row B (JObj kvs) =
     (if kvs \<noteq> [] then Some (map (\<lambda>kv. (fst kv, py_str B (snd kv))) kvs) else None)"
| "parse_row B v = None"

definition parse_data_table :: "builtins \<Rightarrow> json \<Rightarrow> py_error + ComponentContent option" where
  "parse_data_table B data =
     and_then (dict_get data ''columns'' (JArr [])) (\<lambda>columns_data.
     and_then (and_then (py_iter columns_data) (map_err (parse_column B))) (\<lambda>parsed.
       let columns = somes parsed in
       and_then (dict_get data ''rows'' (JArr [])) (\<lambda>rows.
       and_then (py_iter rows) (\<lambda>row_items.
         let parsed_rows = somes (map (parse_row B) row_items) in
         if columns = [] \<or> parsed_rows = [] then Inr None
         else
           and_then (dict_get data ''title'' JNull) (\<lambda>t.
           and_then (dict_get data ''caption'' JNull) (\<lambda>c.
             Inr (Some (DataTableContent
               \<lparr>dt_columns = columns, dt_rows = parsed_rows, dt_title = t, dt_caption = c\<rparr>))))))))"

definition parse_item :: "builtins \<Rightarrow> json \<Rightarrow> py_error + ComparisonItem option" where
  "parse_item B i =
     and_then (has_name i) (\<lambda>keep.
       if \<not> keep then Inr None
       else
         and_then (dict_get i ''name'' (JStr [])) (\<lambda>n.
         and_then (dict_get i ''description'' JNull) (\<lambda>d.
           Inr (Some \<lparr>item_name = py_str B n, item_description = d\<rparr>))))"

definition parse_attribute :: "builtins \<Rightarrow> json \<Rightarrow> py_error + ComparisonAttribute option" where
  "parse_attribute B a =
     and_then (has_name_and_values a) (\<lambda>keep.
       if \<not> keep then Inr None
       else
         and_then (dict_get a ''name'' (JStr [])) (\<lambda>n.
         and_then (and_then (dict_get a ''values'' (JArr [])) py_iter) (\<lambda>vs.
           Inr (Some \<lparr>attr_name = py_str B n, attr_values = map (py_str B) vs\<rparr>))))"

definition parse_comparison :: "builtins \<Rightarrow> json \<Rightarrow> py_error + ComponentContent option" where
  "parse_comparison B data =
     and_then (dict_get data ''items'' (JArr [])) (\<lambda>items_data.
     and_then (and_then (py_iter items_data) (map_err (parse_item B))) (\<lambda>parsed_items.
       let items = somes parsed_items in
       and_then (dict_get data ''attributes'' (JArr [])) (\<lambda>attributes_data.
       and_then (and_then (py_iter attributes_data) (map_err (parse_attribute B))) (\<lambda>parsed_attrs.
         let attributes = somes parsed_attrs in
         if items = [] \<or> attributes = [] then Inr None
         else
           and_then (dict_get data ''title'' JNull) (\<lambda>t.
           and_then (dict_get data ''caption'' JNull) (\<lambda>c.
             Inr (Some (ComparisonContent
               \<lparr>cmp_items = items, cmp_attributes = attributes, cmp_title = t,
                cmp_caption = c\<rparr>))))))))"

definition parse_member :: "builtins \<Rightarrow> json \<Rightarrow> py_error + MemberProfile option" where
  "parse_member B m =
     and_then (has_name m) (\<lambda>keep.
       if \<not> keep then Inr None
       else
         and_then (dict_get m ''member_id'' (JStr [])) (\<lambda>i.
         and_then (dict_get m ''name'' (JStr [])) (\<lambda>n.
         and_then (dict_get m ''party'' (JStr [])) (\<lambda>p.
         and_then (dict_get m ''constituency'' JNull) (\<lambda>cn.
         and_then (and_then (dict_get m ''roles'' (JArr [])) py_iter) (\<lambda>rs.
         and_then (dict_get m ''photo_url'' JNull) (\<lambda>ph.
         and_then (dict_get m ''biography'' JNull) (\<lambda>bio.
         and_then (dict_get m ''profile_url'' JNull) (\<lambda>pu.
           Inr (Some \<lparr>mp_member_id = py_str B i, mp_name = py_str B n, mp_party = py_str B p,
                       mp_constituency = cn, mp_roles = rs, mp_photo_url = ph,
                       mp_biography = bio, mp_profile_url = pu\<rparr>))))))))))"

definition parse_member_profiles :: "builtins \<Rightarrow> json \<Rightarrow> py_error + ComponentContent option" where
  "parse_member_profiles B data =
     and_then (dict_get data ''members'' (JArr [])) (\<lambda>members_data.
     and_then (and_then (py_iter members_data) (map_err (parse_member B))) (\<lambda>parsed.
       let members = somes parsed in
       if members = [] then Inr None
       else
         and_then (dict_get data ''title'' JNull) (\<lambda>t.
         and_then (dict_get data ''caption'' JNull) (\<lambda>c.
           Inr (Some (MemberProfilesContent
             \<lparr>mps_members = members, mps_title = t, mps_caption = c\<rparr>))))))"

definition parse_party_vote :: "builtins \<Rightarrow> json \<Rightarrow> py_error + PartyVote option" where
  "parse_party_vote B p =
     and_then (has_party p) (\<lambda>keep.
       if \<not> keep then Inr None
       else
         and_then (dict_get p ''party'' (JStr [])) (\<lambda>n.
         and_then (int_field B p ''votes_for'' 0) (\<lambda>vf.
         and_then (int_field B p ''votes_against'' 0) (\<lambda>va.
         and_then (int_field B p ''abstentions'' 0) (\<lambda>ab.
         and_then (int_field B p ''not_voting'' 0) (\<lambda>nv.
           Inr (Some \<lparr>pv_party = py_str B n, pv_votes_for = vf, pv_votes_against = va,
                       pv_abstentions = ab, pv_not_voting = nv\<rparr>)))))))"

definition parse_voting_breakdown :: "builtins \<Rightarrow> json \<Rightarrow> py_error + ComponentContent option" where
  "parse_voting_breakdown B data =
     and_then (dict_get data ''party_breakdown'' (JArr [])) (\<lambda>party_data.
     and_then (and_then (py_iter party_data) (map_err (parse_party_vote B))) (\<lambda>parsed.
       let party_breakdown = somes parsed in
       and_then (int_field B data ''total_for'' 0) (\<lambda>total_for.
       and_then (int_field B data ''total_against'' 0) (\<lambda>total_against.
       and_then (dict_get data ''title'' JNull) (\<lambda>t.
       and_then (dict_get data ''date'' JNull) (\<lambda>d.
       and_then (int_field B data ''total_abstentions'' 0) (\<lambda>ta.
       and_then (dict_get data ''result'' JNull) (\<lambda>r.
       and_then (dict_get data ''caption'' JNull) (\<lambda>c.
         Inr (Some (VotingBreakdownContent
           \<lparr>vb_total_for = total_for, vb_total_against = total_against,
            vb_party_breakdown = party_breakdown, vb_title = t, vb_date = d,
            vb_total_abstentions = ta, vb_result = r, vb_caption = c\<rparr>)))))))))))"

text \<open>The normalised and aliased component type of a raw object.\<close>

definition component_type_of :: "json \<Rightarrow> py_error + string" where
  "component_type_of data =
     and_then (dict_get data ''type'' (JStr [])) (\<lambda>raw_type.
     and_then (str_method (\<lambda>s. strip (replace_hyphens (lower s))) raw_type) (\<lambda>normalized_type.
       Inr (case map_of TYPE_ALIASES normalized_type of
              None \<Rightarrow> normalized_type
            | Some t \<Rightarrow> t)))"

definition parse_content :: "builtins \<Rightarrow> string \<Rightarrow> json \<Rightarrow> py_error + ComponentContent option" where
  "parse_content B comp_type data =
     (if comp_type = ''text_block'' then parse_text_block data
      else if comp_type = ''notice'' then parse_notice data
      else if comp_type = ''chart'' then parse_chart B data
      else if comp_type = ''timeline'' then parse_timeline B data
      else if comp_type = ''data_table'' then parse_data_table B data
      else if comp_type = ''comparison'' then parse_comparison B data
      else if comp_type = ''member_profiles'' then parse_member_profiles B data
      else if comp_type = ''voting_breakdown'' then parse_voting_breakdown B data
      else Inr None)"

text \<open>
  \<^verbatim>\<open>parse_component\<close>: \<open>Inl\<close> is an exception that escapes it, \<open>Inr None\<close> a skipped
  component, \<open>Inr (Some c)\<close> the admitted component, whose id is \<open>fresh\<close>.
\<close>

definition parse_component :: "builtins \<Rightarrow> json \<Rightarrow> nat \<Rightarrow> py_error + Component option" where
  "parse_component B data fresh =
     and_then (component_type_of data) (\<lambda>comp_type.
     and_then (dict_get data ''size'' JNull) (\<lambda>sz.
       let validation = validate_component B comp_type data in
       if \<not> is_valid validation then Inr None
       else
         and_then (parse_content B comp_type data) (\<lambda>c.
           Inr (map_option (\<lambda>cont. create cont sz fresh) c))))"

section \<open>Composer (adapters/agents/composer.py)\<close>

text \<open>
  The inner loop of \<^verbatim>\<open>_build_layout_from_data\<close> over one section's raw components.
  The state is the list of all components so far, this section's ids, and the next fresh id.
\<close>

fun parse_section_components ::
  "builtins \<Rightarrow> json list \<Rightarrow> Component list \<times> nat list \<times> nat
    \<Rightarrow> py_error + (Component list \<times> nat list \<times> nat)"
where
  "parse_section_components B [] st = Inr st"
| "parse_section_components B (comp_data # rest) (components, ids, fresh) =
     (case parse_component B comp_data fresh of
        Inl e \<Rightarrow> Inl e
      | Inr None \<Rightarrow> parse_section_components B rest (components, ids, fresh)
      | Inr (Some component) \<Rightarrow>
          parse_section_components B rest
            (components @ [component], ids @ [comp_id component], Suc fresh))"

definition section_components :: "json \<Rightarrow> py_error + json list" where
  "section_components section_data =
     and_then (dict_get section_data ''components'' (JArr [])) py_iter"

definition make_section :: "json \<Rightarrow> nat list \<Rightarrow> py_error + Section" where
  "make_section section_data ids =
     and_then (dict_get section_data ''title'' JNull) (\<lambda>t.
     and_then (dict_get section_data ''layout'' JNull) (\<lambda>l.
       Inr \<lparr>component_ids = ids, section_title = t, section_layout = l\<rparr>))"

text \<open>The outer loop: a section whose id list stayed empty is skipped.\<close>

fun build_sections ::
  "builtins \<Rightarrow> json list \<Rightarrow> Component list \<times> Section list \<times> nat
    \<Rightarrow> py_error + (Component list \<times> Section list \<times> nat)"
where
  "build_sections B [] st = Inr st"
| "build_sections B (section_data # rest) (components, secs, fresh) =
     (case section_components section_data of
        Inl e \<Rightarrow> Inl e
      | Inr comps \<Rightarrow>
          (case parse_section_components B comps (components, [], fresh) of
             Inl e \<Rightarrow> Inl e
           | Inr (components', ids, fresh') \<Rightarrow>
               if ids = [] then build_sections B rest (components', secs, fresh')
               else (case make_section section_data ids of
                       Inl e \<Rightarrow> Inl e
                     | Inr s \<Rightarrow> build_sections B rest (components', secs @ [s], fresh'))))"

definition build_layout_from_data ::
  "builtins \<Rightarrow> json \<Rightarrow> nat \<Rightarrow> py_error + (Layout \<times> Component list \<times> nat)"
where
  "build_layout_from_data B data fresh =
     and_then (and_then (dict_get data ''sections'' (JArr [])) py_iter) (\<lambda>section_items.
     and_then (build_sections B section_items ([], [], fresh)) (\<lambda>(components, secs, fresh').
     and_then (dict_get data ''title'' JNull) (\<lambda>t.
     and_then (dict_get data ''subtitle'' JNull) (\<lambda>s.
       Inr (\<lparr>sections = secs, layout_title = t, layout_subtitle = s\<rparr>, components, fresh')))))"

text \<open>
  Modelled from the spec: domain/agents/entities.py (\<^verbatim>\<open>ExtractionResult\<close>) is not among
  the sources. The composer reads the component type, the completeness, the warnings and
  \<^verbatim>\<open>is_complete()\<close>, which the spec gives as: the extracted data is non-empty and the
  completeness is at least 0.5.
\<close>

record ExtractionResult =
  ex_component_type :: string
  extracted_data :: json
  completeness :: rat
  ex_warnings :: "string list"

definition is_complete :: "ExtractionResult \<Rightarrow> bool" where
  "is_complete e = (truthy (extracted_data e) \<and> 1 / 2 \<le> completeness e)"

text \<open>\<^verbatim>\<open>sep.join(parts)\<close>.\<close>

fun join :: "string \<Rightarrow> string list \<Rightarrow> string" where
  "join sep [] = []"
| "join sep [x] = x"
| "join sep (x # y # ys) = x @ sep @ join sep (y # ys)"

text \<open>\<^verbatim>\<open>components.insert(min(1, len(components)), notice)\<close>.\<close>

definition insert_near_top :: "Component \<Rightarrow> Component list \<Rightarrow> Component list" where
  "insert_near_top notice components =
     (let i = min 1 (length components) in take i components @ [notice] @ drop i components)"

definition add_extraction_warnings ::
  "Component list \<Rightarrow> ExtractionResult list \<Rightarrow> nat \<Rightarrow> Component list \<times> nat"
where
  "add_extraction_warnings components extractions fresh =
     (let low_completeness =
            map ex_component_type (filter (\<lambda>e. completeness e < 1 / 2) extractions)
      in if low_completeness \<noteq> [] then
           (let warning_msg = ''Limited data available for: '' @ join '', '' low_completeness
                                @ ''. Some information may be incomplete.'';
                notice = create (NoticeContent \<lparr>nt_message = warning_msg, nt_level = INFO,
                                   nt_title = JStr ''Data Availability''\<rparr>) JNull fresh
            in (insert_near_top notice components, Suc fresh))
         else (components, fresh))"

definition composer_insufficient_data_response ::
  "string \<Rightarrow> ExtractionResult list \<Rightarrow> nat \<Rightarrow> Layout \<times> Component list \<times> nat"
where
  "composer_insufficient_data_response query extractions fresh =
     (let ws = concat (map ex_warnings extractions);
          warning_text = (if ws \<noteq> [] then join ''; '' ws
                          else ''No relevant information found in the available documents.'');
          notice = create (NoticeContent
                     \<lparr>nt_message = ''Unable to answer this query: '' @ warning_text,
                      nt_level = WARNING, nt_title = JStr ''Insufficient Information''\<rparr>) JNull fresh;
          txt = create (TextBlockContent
                     \<lparr>tb_content = ''The query '' @ [CHR 0x27] @ query @ [CHR 0x27]
                        @ '' could not be answered with the available information. ''
                        @ ''Try refining your search or using different keywords.'',
                      tb_title = JNull, tb_format = MARKDOWN\<rparr>) JNull (Suc fresh);
          section = \<lparr>component_ids = [comp_id notice, comp_id txt], section_title = JNull,
                     section_layout = JNull\<rparr>;
          layout = \<lparr>sections = [section], layout_title = JStr ''Unable to Answer Query'',
                    layout_subtitle = JStr ''Insufficient information available''\<rparr>
      in (layout, [notice, txt], Suc (Suc fresh)))"

definition fallback_response :: "nat \<Rightarrow> Layout \<times> Component list \<times> nat" where
  "fallback_response fresh =
     (let txt = create (TextBlockContent
                  \<lparr>tb_content = ''An error occurred while generating the response. Please try again.'',
                   tb_title = JNull, tb_format = MARKDOWN\<rparr>) JNull fresh;
          section = \<lparr>component_ids = [comp_id txt], section_title = JNull, section_layout = JNull\<rparr>;
          layout = \<lparr>sections = [section], layout_title = JStr ''Error'', layout_subtitle = JNull\<rparr>
      in (layout, [txt], Suc fresh))"

definition fallback_layout :: "string \<Rightarrow> nat \<Rightarrow> Layout \<times> Component list \<times> nat" where
  "fallback_layout content_text fresh =
     (let txt = create (TextBlockContent
                  \<lparr>tb_content = content_text, tb_title = JNull, tb_format = MARKDOWN\<rparr>) JNull fresh;
          section = \<lparr>component_ids = [comp_id txt], section_title = JNull, section_layout = JNull\<rparr>;
          layout = \<lparr>sections = [section], layout_title = JNull, layout_subtitle = JNull\<rparr>
      in (layout, [txt], Suc fresh))"

text \<open>
  \<^verbatim>\<open>_parse_response\<close>, given what \<^verbatim>\<open>json.loads\<close> made of the reply (\<open>None\<close>: it
  raised \<^verbatim>\<open>JSONDecodeError\<close>). Its handler also catches \<^verbatim>\<open>IndexError\<close> and
  \<^verbatim>\<open>KeyError\<close>.
\<close>

definition parse_response ::
  "builtins \<Rightarrow> string \<Rightarrow> json option \<Rightarrow> nat \<Rightarrow> py_error + (Layout \<times> Component list \<times> nat)"
where
  "parse_response B content_text loaded fresh =
     (case loaded of
        None \<Rightarrow> Inr (fallback_layout content_text fresh)
      | Some data \<Rightarrow>
          (case build_layout_from_data B data fresh of
             Inl IndexError \<Rightarrow> Inr (fallback_layout content_text fresh)
           | Inl KeyError \<Rightarrow> Inr (fallback_layout content_text fresh)
           | Inl e \<Rightarrow> Inl e
           | Inr res \<Rightarrow> Inr res))"

text \<open>
  \<^verbatim>\<open>compose\<close>. The language model's reply is an input: \<open>Inl\<close> when the call raised,
  otherwise the reply text with its JSON decoding. Any exception after the call gives the
  fallback response. The token usage, which does not bear on the layout, is left out.
\<close>

definition compose ::
  "builtins \<Rightarrow> string \<Rightarrow> ExtractionResult list \<Rightarrow> py_error + (string \<times> json option) \<Rightarrow> nat
    \<Rightarrow> Layout \<times> Component list \<times> nat"
where
  "compose B query extractions reply fresh =
     (if filter is_complete extractions = []
      then composer_insufficient_data_response query extractions fresh
      else
        (case reply of
           Inl e \<Rightarrow> fallback_response fresh
         | Inr (content_text, loaded) \<Rightarrow>
             (case parse_response B content_text loaded fresh of
                Inl e \<Rightarrow> fallback_response fresh
              | Inr (layout, components, fresh') \<Rightarrow>
                  (let (components', fresh'') = add_extraction_warnings components extractions fresh'
                   in (layout, components', fresh'')))))"

text \<open>The layout invariant of the data model: no empty section, every id resolvable.\<close>

definition layout_resolves :: "Layout \<Rightarrow> Component list \<Rightarrow> bool" where
  "layout_resolves layout components =
     list_all (\<lambda>s. component_ids s \<noteq> [] \<and>
                    list_all (\<lambda>i. i \<in> set (map comp_id components)) (component_ids s))
       (sections layout)"

section \<open>Shape predicates used to state the chart rules\<close>

text \<open>
  All data points of a raw chart, series after series; \<open>None\<close> when the object is not a
  dictionary whose series can be enumerated as dictionaries with enumerable data.
\<close>

definition data_points_of :: "json \<Rightarrow> json list option" where
  "data_points_of data =
     (case and_then (dict_get data ''series'' (JArr [])) py_iter of
        Inl e \<Rightarrow> None
      | Inr items \<Rightarrow>
          (case map_err series_points items of
             Inl e \<Rightarrow> None
           | Inr pss \<Rightarrow> Some (concat pss)))"

text \<open>The data points of the first series.\<close>

definition first_series_points :: "json \<Rightarrow> json list option" where
  "first_series_points data =
     (case and_then (dict_get data ''series'' (JArr [])) py_iter of
        Inr (s # ss) \<Rightarrow> (case series_points s of Inl e \<Rightarrow> None | Inr ps \<Rightarrow> Some ps)
      | Inr [] \<Rightarrow> None
      | Inl e \<Rightarrow> None)"

text \<open>A data point whose value is present and coercible to a number.\<close>

definition numeric_point :: "builtins \<Rightarrow> json \<Rightarrow> bool" where
  "numeric_point B p =
     (case dict_get p ''value'' JNull of
        Inl e \<Rightarrow> False
      | Inr v \<Rightarrow> v \<noteq> JNull \<and> (case py_float B v of Inl e \<Rightarrow> False | Inr x \<Rightarrow> True))"

text \<open>A data point whose value is a negative number.\<close>

definition negative_point :: "builtins \<Rightarrow> json \<Rightarrow> bool" where
  "negative_point B p =
     (case and_then (dict_get p ''value'' JNull) (py_float B) of
        Inl e \<Rightarrow> False
      | Inr x \<Rightarrow> x < 0)"

definition is_pie_type :: "json \<Rightarrow> bool" where
  "is_pie_type data =
     (dict_get data ''chart_type'' (JStr ''bar'') = Inr (JStr ''pie'')
      \<or> dict_get data ''chart_type'' (JStr ''bar'') = Inr (JStr ''doughnut''))"

text \<open>The raw attributes of a comparison that have a name and values, as the validator keeps them.\<close>

definition valid_attributes_of :: "json \<Rightarrow> py_error + json list" where
  "valid_attributes_of data =
     and_then (and_then (dict_get data ''attributes'' (JArr [])) py_iter)
       (filter_err has_name_and_values)"

text \<open>
  What a kept raw attribute and its parsed form have in common: the values are not empty
  and there are as many of them as the raw attribute has.
\<close>

definition attr_matches :: "builtins \<Rightarrow> json \<Rightarrow> ComparisonAttribute \<Rightarrow> bool" where
  "attr_matches B y a \<longleftrightarrow>
     attr_values a \<noteq> [] \<and> attribute_values_len y = Inr (length (attr_values a))"

text \<open>A raw component that fails its validation.\<close>

definition fails_validation :: "builtins \<Rightarrow> json \<Rightarrow> bool" where
  "fails_validation B c =
     (case component_type_of c of
        Inl e \<Rightarrow> False
      | Inr t \<Rightarrow> \<not> is_valid (validate_component B t c))"

text \<open>A raw section all of whose raw components fail validation.\<close>

definition all_components_fail :: "builtins \<Rightarrow> json \<Rightarrow> bool" where
  "all_components_fail B section_data =
     (case section_components section_data of
        Inl e \<Rightarrow> False
      | Inr comps \<Rightarrow> list_all (fails_validation B) comps)"

section \<open>Pipeline orchestrator (domain/rag/use_cases.py)\<close>

record QueryFilters =
  qf_document_types :: "string list option"
  qf_date_from :: "string option"
  qf_date_to :: "string option"
  qf_sources :: "string list option"
  qf_member_ids :: "string list option"

record Query =
  query_text :: string
  session_id :: "string option"
  query_filters :: "QueryFilters option"

record QueryMetadata =
  documents_retrieved :: int
  chunks_used :: int
  processing_time_ms :: int
  model :: string

record SourceReference =
  src_document_id :: string
  source_name :: string
  source_url :: "string option"
  source_date :: "string option"
  section_ref :: "string option"

record RAGResult =
  rag_layout :: Layout
  rag_components :: "Component list"
  rag_metadata :: QueryMetadata
  rag_sources :: "SourceReference list"
  cached :: bool
  rag_cost :: "CostBreakdown option"

record ExecuteQueryResult =
  result :: RAGResult
  cost :: CostBreakdown

text \<open>
  Modelled from the spec: domain/agents/entities.py (\<^verbatim>\<open>VerificationResult\<close>,
  \<^verbatim>\<open>UnsupportedClaim\<close>) is not among the sources; the fields are those the verifier
  adapter fills and the spec's data model lists.
\<close>

record UnsupportedClaim =
  claim_text :: string
  claim_component_id :: "string option"
  severity :: string

record VerificationResult =
  vr_is_valid :: bool
  unsupported_claims :: "UnsupportedClaim list"
  confidence_score :: rat
  vr_warnings :: "string list"

text \<open>The token-usage dictionary of the composer; a key may be absent.\<close>

record TokenUsage =
  tu_input_tokens :: "int option"
  tu_output_tokens :: "int option"
  tu_model :: "string option"

text \<open>
  The use case object. The four agents and the optional verifier are injected
  protocols, so each is a function that may raise. The cache is a dictionary from keys to
  results whose reads and writes succeed; its key function is the adapter's and is injected
  as well.
\<close>

record Pipeline =
  planner :: "string \<Rightarrow> py_error + IntentResult"
  retriever :: "string \<Rightarrow> IntentResult \<Rightarrow> py_error + RetrievalResult"
  extractor :: "string \<Rightarrow> string list \<Rightarrow> IntentResult \<Rightarrow> py_error + ExtractionResult"
  composer :: "string \<Rightarrow> IntentResult \<Rightarrow> ExtractionResult list
                \<Rightarrow> py_error + (Layout \<times> Component list \<times> TokenUsage)"
  verifier :: "(Layout \<Rightarrow> Component list \<Rightarrow> string list \<Rightarrow> py_error + VerificationResult) option"
  query_key :: "Query \<Rightarrow> string"
  cache_ttl_seconds :: int
  cost_margin :: rat

text \<open>Every call on a collaborator is logged, in order.\<close>

datatype event =
    CacheGet string
  | PlannerCall string
  | RetrieverCall string
  | ExtractorCall string
  | ComposerCall
  | VerifierCall
  | CacheSet string int

definition insufficient_data_response ::
  "Query \<Rightarrow> IntentResult \<Rightarrow> string list \<Rightarrow> nat \<Rightarrow> RAGResult"
where
  "insufficient_data_response query intent ws fresh =
     (let warning_text = (if ws \<noteq> [] then join ''; '' ws else ''Limited relevant information found.'');
          notice = create (NoticeContent
                     \<lparr>nt_message = ''Unable to fully answer this query: '' @ warning_text,
                      nt_level = WARNING, nt_title = JStr ''Limited Information''\<rparr>) JNull fresh;
          suggestion_text =
            ''The query '' @ [CHR 0x27] @ query_text query @ [CHR 0x27]
              @ '' could not be fully answered. ''
              @ ''Try:'' @ [CHR 0x0A]
              @ ''- Using different keywords'' @ [CHR 0x0A]
              @ ''- Narrowing the date range'' @ [CHR 0x0A]
              @ ''- Specifying particular politicians or parties'';
          text_component = create (TextBlockContent
                     \<lparr>tb_content = suggestion_text, tb_title = JNull, tb_format = MARKDOWN\<rparr>)
                     JNull (Suc fresh);
          section = \<lparr>component_ids = [comp_id notice, comp_id text_component],
                     section_title = JNull, section_layout = JNull\<rparr>;
          layout = \<lparr>sections = [section], layout_title = JStr ''Unable to Answer Query'',
                    layout_subtitle = JStr ''Insufficient information available''\<rparr>
      in \<lparr>rag_layout = layout, rag_components = [notice, text_component],
          rag_metadata = \<lparr>documents_retrieved = 0, chunks_used = 0, processing_time_ms = 0,
                           model = ''none''\<rparr>,
          rag_sources = [], cached = False, rag_cost = None\<rparr>)"

definition verification_notice :: "nat \<Rightarrow> Component" where
  "verification_notice fresh =
     create (NoticeContent
       \<lparr>nt_message = ''Some information could not be fully verified against source documents. ''
                       @ ''Please verify critical facts independently.'',
        nt_level = WARNING, nt_title = JStr ''Verification Warning''\<rparr>) JNull fresh"

text \<open>
  \<^verbatim>\<open>_filter_unsupported_claims\<close>; the second component of the result is the next
  fresh id.
\<close>

definition filter_unsupported_claims ::
  "Component list \<Rightarrow> VerificationResult \<Rightarrow> nat \<Rightarrow> Component list \<times> nat"
where
  "filter_unsupported_claims components verification fresh =
     (if unsupported_claims verification = [] then (components, fresh)
      else
        (let errors = filter (\<lambda>c. severity c = ''error'') (unsupported_claims verification)
         in if errors \<noteq> []
            then (insert_near_top (verification_notice fresh) components, Suc fresh)
            else (components, fresh)))"

definition error_response :: "int \<Rightarrow> nat \<Rightarrow> ExecuteQueryResult" where
  "error_response elapsed_ms fresh =
     (let notice = create (NoticeContent
                     \<lparr>nt_message = ''An error occurred while processing your query. Please try again.'',
                      nt_level = WARNING, nt_title = JStr ''Error''\<rparr>) JNull fresh;
          section = \<lparr>component_ids = [comp_id notice], section_title = JNull,
                     section_layout = JNull\<rparr>;
          layout = \<lparr>sections = [section], layout_title = JStr ''Error Processing Query'',
                    layout_subtitle = JNull\<rparr>
      in \<lparr>result = \<lparr>rag_layout = layout, rag_components = [notice],
                     rag_metadata = \<lparr>documents_retrieved = 0, chunks_used = 0,
                                      processing_time_ms = elapsed_ms, model = ''error''\<rparr>,
                     rag_sources = [], cached = False, rag_cost = None\<rparr>,
          cost = zero\<rparr>)"

text \<open>\<^verbatim>\<open>metadata.get(key) or None\<close>.\<close>

definition get_or_none :: "(string \<times> string) list \<Rightarrow> string \<Rightarrow> string option" where
  "get_or_none md k = (case map_of md k of None \<Rightarrow> None | Some v \<Rightarrow> if v \<noteq> [] then Some v else None)"

text \<open>
  \<^verbatim>\<open>_aggregate_sources\<close>: a dictionary keyed by document id, filled in chunk order; the
  accumulator holds its items.
\<close>

fun aggregate_loop :: "Chunk list \<Rightarrow> (string \<times> SourceReference) list \<Rightarrow> (string \<times> SourceReference) list" where
  "aggregate_loop [] seen_docs = seen_docs"
| "aggregate_loop (chunk # rest) seen_docs =
     (let doc_id = document_id chunk
      in if map_of seen_docs doc_id = None
         then aggregate_loop rest
                (seen_docs @ [(doc_id,
                   \<lparr>src_document_id = doc_id,
                    source_name = (case map_of (metadata chunk) ''source_name'' of
                                     None \<Rightarrow> ''Unknown'' | Some n \<Rightarrow> n),
                    source_url = get_or_none (metadata chunk) ''source_url'',
                    source_date = get_or_none (metadata chunk) ''source_date'',
                    section_ref = None\<rparr>)])
         else aggregate_loop rest seen_docs)"

definition aggregate_sources :: "Chunk list \<Rightarrow> SourceReference list" where
  "aggregate_sources cs = map snd (aggregate_loop cs [])"

text \<open>\<^verbatim>\<open>len(text.split())\<close>: the number of maximal runs of non-space characters.\<close>

fun count_words :: "bool \<Rightarrow> string \<Rightarrow> nat" where
  "count_words in_word [] = 0"
| "count_words in_word (c # cs) =
     (if is_space c then count_words False cs
      else (if in_word then 0 else 1) + count_words True cs)"

definition word_count :: "string \<Rightarrow> nat" where
  "word_count s = count_words False s"

text \<open>
  Step 6 of \<^verbatim>\<open>execute\<close>: the verifier runs only when one is configured and the context
  is not empty, and the components are touched only when it reports \<^verbatim>\<open>is_valid\<close> false.
\<close>

definition verify_step ::
  "Pipeline \<Rightarrow> Layout \<Rightarrow> Component list \<Rightarrow> string list \<Rightarrow> nat
    \<Rightarrow> py_error + (Component list \<times> nat \<times> event list)"
where
  "verify_step P layout components ctx fresh =
     (case verifier P of
        None \<Rightarrow> Inr (components, fresh, [])
      | Some verify \<Rightarrow>
          if ctx = [] then Inr (components, fresh, [])
          else
            (case verify layout components ctx of
               Inl e \<Rightarrow> Inl e
             | Inr verification \<Rightarrow>
                 if \<not> vr_is_valid verification
                 then (let (components', fresh') = filter_unsupported_claims components verification fresh
                       in Inr (components', fresh', [VerifierCall]))
                 else Inr (components, fresh, [VerifierCall])))"

text \<open>
  The part of \<^verbatim>\<open>execute\<close> after the sufficiency check, from the extraction to the cache
  write. \<^verbatim>\<open>asyncio.gather\<close> starts one extraction per expected component and raises if
  one of them raised.
\<close>

definition complete_pipeline ::
  "Pipeline \<Rightarrow> (string \<times> RAGResult) list \<Rightarrow> Query \<Rightarrow> string \<Rightarrow> IntentResult \<Rightarrow> RetrievalResult
    \<Rightarrow> int \<Rightarrow> nat \<Rightarrow> event list
    \<Rightarrow> ExecuteQueryResult \<times> (string \<times> RAGResult) list \<times> event list"
where
  "complete_pipeline P cache query cache_key intent retrieval elapsed_ms fresh trace =
     (let ctx = context_texts retrieval;
          trace1 = trace @ map ExtractorCall (expected_components intent)
      in case map_err (\<lambda>component_type. extractor P component_type ctx intent)
                (expected_components intent) of
           Inl e \<Rightarrow> (error_response elapsed_ms fresh, cache, trace1)
         | Inr extractions \<Rightarrow>
             (let trace2 = trace1 @ [ComposerCall]
              in case composer P (query_text query) intent extractions of
                   Inl e \<Rightarrow> (error_response elapsed_ms fresh, cache, trace2)
                 | Inr (layout, components, token_usage) \<Rightarrow>
                     (let total_input_tokens =
                            0 + (case tu_input_tokens token_usage of None \<Rightarrow> 0 | Some n \<Rightarrow> n);
                          total_output_tokens =
                            0 + (case tu_output_tokens token_usage of None \<Rightarrow> 0 | Some n \<Rightarrow> n);
                          model_used =
                            (case tu_model token_usage of None \<Rightarrow> ''unknown'' | Some m \<Rightarrow> m)
                      in case verify_step P layout components ctx fresh of
                           Inl e \<Rightarrow> (error_response elapsed_ms fresh, cache, trace2 @ [VerifierCall])
                         | Inr (components', fresh', vtrace) \<Rightarrow>
                             (let trace3 = trace2 @ vtrace;
                                  sources = aggregate_sources (chunks retrieval);
                                  embedding_tokens =
                                    int (word_count (query_text query))
                                      * int (length (rewritten_queries intent));
                                  vector_queries =
                                    (if strategy_value (retrieval_strategy intent) = ''multi_entity''
                                     then int (length (rewritten_queries intent)) else 1);
                                  c = calculate embedding_tokens total_input_tokens
                                        total_output_tokens vector_queries (cost_margin P);
                                  res = \<lparr>rag_layout = layout, rag_components = components',
                                         rag_metadata =
                                           \<lparr>documents_retrieved =
                                               int (card (set (map document_id (chunks retrieval)))),
                                            chunks_used = int (length (chunks retrieval)),
                                            processing_time_ms = elapsed_ms, model = model_used\<rparr>,
                                         rag_sources = sources, cached = False, rag_cost = Some c\<rparr>
                              in (\<lparr>result = res, cost = c\<rparr>,
                                  AList.update cache_key res cache,
                                  trace3 @ [CacheSet cache_key (cache_ttl_seconds P)])))))"

text \<open>
  \<^verbatim>\<open>execute\<close>. The clock is read once on each path; \<open>elapsed_ms\<close> is that reading,
  \<^verbatim>\<open>int((time.time() - start_time) * 1000)\<close>. The result comes with the cache after the
  call and the log of the calls made.
\<close>

definition execute ::
  "Pipeline \<Rightarrow> (string \<times> RAGResult) list \<Rightarrow> Query \<Rightarrow> int \<Rightarrow> nat
    \<Rightarrow> ExecuteQueryResult \<times> (string \<times> RAGResult) list \<times> event list"
where
  "execute P cache query elapsed_ms fresh =
     (let cache_key = query_key P query;
          trace0 = [CacheGet cache_key]
      in case map_of cache cache_key of
           Some hit \<Rightarrow> (\<lparr>result = hit, cost = zero\<rparr>, cache, trace0)
         | None \<Rightarrow>
             (let trace1 = trace0 @ [PlannerCall (query_text query)]
              in case planner P (query_text query) of
                   Inl e \<Rightarrow> (error_response elapsed_ms fresh, cache, trace1)
                 | Inr intent \<Rightarrow>
                     (let trace2 = trace1 @ [RetrieverCall (query_text query)]
                      in case retriever P (query_text query) intent of
                           Inl e \<Rightarrow> (error_response elapsed_ms fresh, cache, trace2)
                         | Inr retrieval \<Rightarrow>
                             if \<not> is_sufficient retrieval
                             then
                               (let res = insufficient_data_response query intent
                                            (warnings retrieval) fresh;
                                    res' = res\<lparr>rag_metadata :=
                                             \<lparr>documents_retrieved = 0,
                                              chunks_used = int (length (chunks retrieval)),
                                              processing_time_ms = elapsed_ms,
                                              model = ''unknown''\<rparr>\<rparr>
                                in (\<lparr>result = res', cost = zero\<rparr>, cache, trace2))
                             else complete_pipeline P cache query cache_key intent retrieval
                                    elapsed_ms fresh trace2)))"

section \<open>Concrete inputs used by the witnesses\<close>

definition example_chunk :: "string \<Rightarrow> (string \<times> string) list \<Rightarrow> Chunk" where
  "example_chunk i md =
     \<lparr>chunk_id = i, document_id = ''doc-'' @ i, chunk_text = ''text of '' @ i,
      position = 0, metadata = md\<rparr>"

definition example_intent :: "RetrievalStrategy \<Rightarrow> string list \<Rightarrow> IntentResult" where
  "example_intent strategy rqs =
     \<lparr>query_type = FACTUAL,
      entities = \<lparr>parties = [], entity_members = [], bills = [], topics = [], date_from = None,
                  date_to = None, document_types = []\<rparr>,
      expected_components = [''text_block''], retrieval_strategy = strategy,
      rewritten_queries = rqs, confidence = 1 / 2, response_depth = STANDARD\<rparr>"




text \<open>Raw component objects. None of them needs the three parameter builtins.\<close>

definition example_builtins :: builtins where
  "example_builtins = \<lparr>float_of_str = (\<lambda>s. None), int_of_str = (\<lambda>s. None), repr = (\<lambda>v. [])\<rparr>"

definition raw_point :: "string \<Rightarrow> int \<Rightarrow> json" where
  "raw_point l v = JObj [(''label'', JStr l), (''value'', JInt v)]"

definition raw_series :: "string \<Rightarrow> json list \<Rightarrow> json" where
  "raw_series n ps = JObj [(''name'', JStr n), (''data'', JArr ps)]"

definition raw_chart :: "string \<Rightarrow> json list \<Rightarrow> json" where
  "raw_chart ct ss = JObj [(''type'', JStr ''chart''), (''chart_type'', JStr ct), (''series'', JArr ss)]"

text \<open>A pie chart whose second series holds a negative value.\<close>

definition pie_negative_in_second_series :: json where
  "pie_negative_in_second_series =
     raw_chart ''pie''
       [raw_series ''first'' [raw_point ''a'' 1, raw_point ''b'' 2],
        raw_series ''second'' [raw_point ''c'' (- 5)]]"

definition pie_with_eight_slices :: json where
  "pie_with_eight_slices =
     raw_chart ''pie''
       [raw_series ''share''
          [raw_point ''a'' 1, raw_point ''b'' 2, raw_point ''c'' 3, raw_point ''d'' 4,
           raw_point ''e'' 5, raw_point ''f'' 6, raw_point ''g'' 7, raw_point ''h'' 8]]"

definition bar_with_two_points :: json where
  "bar_with_two_points = raw_chart ''bar'' [raw_series ''seats'' [raw_point ''a'' 150, raw_point ''b'' 230]]"

definition chart_with_one_point :: json where
  "chart_with_one_point = raw_chart ''bar'' [raw_series ''seats'' [raw_point ''a'' 150]]"

definition scatter_with_two_points :: json where
  "scatter_with_two_points =
     raw_chart ''scatter'' [raw_series ''seats'' [raw_point ''a'' 150, raw_point ''b'' 230]]"

text \<open>A comparison of two items whose only attribute carries a single value.\<close>

definition comparison_with_short_attribute :: json where
  "comparison_with_short_attribute =
     JObj [(''type'', JStr ''comparison''),
           (''items'', JArr [JObj [(''name'', JStr ''Labor'')], JObj [(''name'', JStr ''Liberal'')]]),
           (''attributes'',
              JArr [JObj [(''name'', JStr ''Tax Policy''),
                          (''values'', JArr [JStr ''Increase for high earners''])]])]"

definition comparison_two_by_two :: json where
  "comparison_two_by_two =
     JObj [(''type'', JStr ''comparison''),
           (''items'', JArr [JObj [(''name'', JStr ''Labor'')], JObj [(''name'', JStr ''Liberal'')]]),
           (''attributes'',
              JArr [JObj [(''name'', JStr ''Tax Policy''),
                          (''values'', JArr [JStr ''Increase'', JStr ''Reduce''])]])]"

text \<open>A composer reply with two sections; the only component of the first is rejected.\<close>

definition raw_text_block :: "string \<Rightarrow> json" where
  "raw_text_block c = JObj [(''type'', JStr ''text_block''), (''content'', JStr c)]"

definition raw_section :: "string \<Rightarrow> json list \<Rightarrow> json" where
  "raw_section t cs = JObj [(''title'', JStr t), (''components'', JArr cs)]"

definition reply_with_rejected_section :: json where
  "reply_with_rejected_section =
     JObj [(''sections'',
              JArr ([] @ raw_section ''Figures'' [chart_with_one_point]
                       # [raw_section ''Summary'' [raw_text_block ''The bill passed.'']])),
           (''title'', JStr ''Result'')]"

definition example_extraction :: ExtractionResult where
  "example_extraction =
     \<lparr>ex_component_type = ''text_block'',
      extracted_data = JObj [(''content'', JStr ''The bill passed.'')],
      completeness = 9 / 10, ex_warnings = []\<rparr>"

definition summary_layout :: Layout where
  "summary_layout =
     \<lparr>sections = [\<lparr>component_ids = [0], section_title = JStr ''Summary'',
                    section_layout = JNull\<rparr>],
      layout_title = JStr ''Result'', layout_subtitle = JNull\<rparr>"

definition summary_component :: Component where
  "summary_component =
     \<lparr>comp_id = 0,
      content = TextBlockContent
        \<lparr>tb_content = ''The bill passed.'', tb_title = JNull, tb_format = MARKDOWN\<rparr>,
      comp_size = JNull\<rparr>"

text \<open>A pipeline of canned agents, for a given retrieval and an optional verifier verdict.\<close>

definition example_usage :: TokenUsage where
  "example_usage = \<lparr>tu_input_tokens = Some 1000, tu_output_tokens = Some 500, tu_model = Some ''gpt-4o''\<rparr>"

definition example_pipeline :: "RetrievalResult \<Rightarrow> VerificationResult option \<Rightarrow> Pipeline" where
  "example_pipeline retrieval verdict =
     \<lparr>planner = (\<lambda>q. Inr (example_intent SINGLE_FOCUS [q])),
      retriever = (\<lambda>q i. Inr retrieval),
      extractor = (\<lambda>ct ctx i. Inr example_extraction),
      composer = (\<lambda>q i exs. Inr (summary_layout, [summary_component], example_usage)),
      verifier = map_option (\<lambda>v. (\<lambda>l cs ctx. Inr v)) verdict,
      query_key = (\<lambda>q. ''rag:query:'' @ query_text q),
      cache_ttl_seconds = 3600,
      cost_margin = 2 / 5\<rparr>"

definition example_query :: Query where
  "example_query = \<lparr>query_text = ''What is a money bill?'', session_id = None, query_filters = None\<rparr>"


definition insufficient_retrieval :: RetrievalResult where
  "insufficient_retrieval =
     \<lparr>chunks = [example_chunk ''c1'' []],
      strategy_used = ''single_focus'', coverage = [], is_sufficient = False,
      warnings = [''Few relevant documents found'']\<rparr>"






section \<open>Theorems: cost model\<close>












section \<open>Theorems: retriever\<close>

















section \<open>Theorems: component constraints and parsing\<close>

lemma and_then_Inr: "and_then m f = Inr y \<longleftrightarrow> (\<exists>x. m = Inr x \<and> f x = Inr y)"
  by (cases m) simp_all

lemma is_valid_invalid [simp]: "\<not> is_valid (invalid v r s)"
  by (simp add: invalid_def)

lemma is_valid_valid [simp]: "is_valid valid"
  by (simp add: valid_def)

lemma validate_component_chart:
  "validate_component B ''chart'' data =
     (case validate_chart B data of
        Inl e \<Rightarrow> invalid INVALID_STRUCTURE (ValidationError e) None | Inr res \<Rightarrow> res)"
  by (simp add: validate_component_def COMPONENT_VALIDATORS_def)

lemma validate_component_comparison:
  "validate_component B ''comparison'' data =
     (case validate_comparison data of
        Inl e \<Rightarrow> invalid INVALID_STRUCTURE (ValidationError e) None | Inr res \<Rightarrow> res)"
  by (simp add: validate_component_def COMPONENT_VALIDATORS_def)

lemma validate_chart_valid:
  assumes "validate_chart B data = Inr r" "is_valid r"
  shows "\<exists>series ct items lens.
           dict_get data ''series'' (JArr []) = Inr series
         \<and> dict_get data ''chart_type'' (JStr ''bar'') = Inr ct
         \<and> truthy series \<and> py_iter series = Inr items
         \<and> map_err series_len items = Inr lens \<and> CHART_MIN_DATA_POINTS \<le> sum_list lens
         \<and> check_series_values B items = Inr None
         \<and> check_chart_type B ct series items = Inr r"
proof -
  from assms(1) obtain series ct where
    g1: "dict_get data ''series'' (JArr []) = Inr series" and
    g2: "dict_get data ''chart_type'' (JStr ''bar'') = Inr ct" and
    r1: "(if \<not> truthy series
          then Inr (invalid INSUFFICIENT_DATA ChartNoSeries (Some ''text_block''))
          else and_then (py_iter series) (\<lambda>series_items.
               and_then (map_err series_len series_items) (\<lambda>lens.
                 let total_points = sum_list lens in
                 if total_points < CHART_MIN_DATA_POINTS
                 then Inr (invalid INSUFFICIENT_DATA (ChartTooFewPoints total_points) (Some ''text_block''))
                 else (case check_series_values B series_items of
                         Inl e \<Rightarrow> Inl e
                       | Inr (Some v) \<Rightarrow> Inr v
                       | Inr None \<Rightarrow> check_chart_type B ct series series_items)))) = Inr r"
    unfolding validate_chart_def and_then_Inr by blast
  have t: "truthy series"
    using r1 assms(2) by (auto split: if_splits)
  with r1 obtain items lens where
    g3: "py_iter series = Inr items" and
    g4: "map_err series_len items = Inr lens" and
    r2: "(if sum_list lens < CHART_MIN_DATA_POINTS
          then Inr (invalid INSUFFICIENT_DATA (ChartTooFewPoints (sum_list lens)) (Some ''text_block''))
          else (case check_series_values B items of
                  Inl e \<Rightarrow> Inl e
                | Inr (Some v) \<Rightarrow> Inr v
                | Inr None \<Rightarrow> check_chart_type B ct series items)) = Inr r"
    by (auto simp: and_then_Inr Let_def)
  have g5: "CHART_MIN_DATA_POINTS \<le> sum_list lens"
    using r2 assms(2) by (auto split: if_splits)
  with r2 have r3: "(case check_series_values B items of
                  Inl e \<Rightarrow> Inl e
                | Inr (Some v) \<Rightarrow> Inr v
                | Inr None \<Rightarrow> check_chart_type B ct series items) = Inr r"
    by simp
  have ci: "check_series_values B xs = Inr (Some v) \<Longrightarrow> \<not> is_valid v" for xs v
  proof (induction xs)
    case Nil then show ?case by simp
  next
    case (Cons s xs)
    have cp: "check_points B ps = Inr (Some v) \<Longrightarrow> \<not> is_valid v" for ps
      by (induction ps)
         (auto split: sum.splits if_splits py_error.splits)
    from Cons cp show ?case
      by (auto split: sum.splits option.splits)
  qed
  from r3 ci assms(2) have g6: "check_series_values B items = Inr None"
    by (auto split: sum.splits option.splits)
  with r3 have g7: "check_chart_type B ct series items = Inr r" by simp
  from g1 g2 t g3 g4 g5 g6 g7 show ?thesis by blast
qed


lemma dict_get_total:
  assumes "dict_get d k x = Inr v"
  shows "\<exists>v'. dict_get d k' x' = Inr v'"
  using assms by (cases d) simp_all

lemma dict_get_default:
  assumes "dict_get d k JNull = Inr v" "v \<noteq> JNull"
  shows "dict_get d k x = Inr v"
  using assms by (cases d) (auto split: option.splits)

lemma py_len_iter: "py_len v = Inr n \<longleftrightarrow> (\<exists>xs. py_iter v = Inr xs \<and> length xs = n)"
  by (cases v) auto

lemma series_len_points:
  "series_len s = Inr n \<longleftrightarrow> (\<exists>ps. series_points s = Inr ps \<and> length ps = n)"
  by (auto simp: series_len_def series_points_def and_then_Inr py_len_iter)

lemma map_err_Inr:
  "map_err f xs = Inr ys \<longleftrightarrow> length ys = length xs \<and> (\<forall>i < length xs. f (xs ! i) = Inr (ys ! i))"
proof (induction xs arbitrary: ys)
  case Nil
  then show ?case by auto
next
  case (Cons x xs)
  show ?case
  proof (cases ys)
    case Nil
    then show ?thesis by (auto split: sum.splits)
  next
    case (Cons y ys')
    show ?thesis
      unfolding Cons using Cons.IH [of ys']
      by (auto simp: nth_Cons split: sum.splits nat.splits)
  qed
qed

lemma map_err_list_all2:
  "map_err f xs = Inr ys \<longleftrightarrow> list_all2 (\<lambda>x y. f x = Inr y) xs ys"
  by (auto simp: map_err_Inr list_all2_conv_all_nth)

lemma check_points_None:
  "check_points B ps = Inr None \<longleftrightarrow> list_all (numeric_point B) ps"
  by (induction ps) (auto simp: numeric_point_def split: sum.splits py_error.splits)

lemma numeric_point_parse:
  assumes "numeric_point B p"
  shows "\<exists>dp. parse_data_point B p = Inr dp"
proof -
  from assms obtain v x where v: "dict_get p ''value'' JNull = Inr v" "v \<noteq> JNull" "py_float B v = Inr x"
    by (auto simp: numeric_point_def split: sum.splits)
  from v(1,2) have "dict_get p ''value'' (JInt 0) = Inr v" by (rule dict_get_default)
  moreover from v(1) obtain l where "dict_get p ''label'' (JStr []) = Inr l"
    using dict_get_total by blast
  moreover from v(1) obtain c where "dict_get p ''category'' JNull = Inr c"
    using dict_get_total by blast
  ultimately show ?thesis using v(3) by (simp add: parse_data_point_def)
qed

lemma numeric_points_parse:
  assumes "list_all (numeric_point B) ps"
  shows "\<exists>dps. map_err (parse_data_point B) ps = Inr dps \<and> length dps = length ps"
  using assms
proof (induction ps)
  case Nil
  then show ?case by simp
next
  case (Cons p ps)
  then obtain dp dps where "parse_data_point B p = Inr dp" "map_err (parse_data_point B) ps = Inr dps"
    "length dps = length ps" using numeric_point_parse by fastforce
  then show ?case by simp
qed


lemma check_series_values_None:
  "check_series_values B items = Inr None \<longleftrightarrow>
     (\<exists>pss. map_err series_points items = Inr pss \<and> list_all (list_all (numeric_point B)) pss)"
proof (induction items)
  case Nil
  then show ?case by auto
next
  case (Cons s items)
  show ?case
  proof (cases "series_points s")
    case (Inl e)
    then show ?thesis by simp
  next
    case (Inr ps)
    show ?thesis
    proof (cases "check_points B ps")
      case (Inl e)
      then have "\<not> list_all (numeric_point B) ps"
        using check_points_None [of B ps] by simp
      with Inl Inr show ?thesis by (auto split: sum.splits)
    next
      case r: (Inr r)
      show ?thesis
      proof (cases r)
        case None
        with r have "list_all (numeric_point B) ps" by (simp add: check_points_None)
        with Inr r None Cons.IH show ?thesis by (auto split: sum.splits)
      next
        case (Some v)
        with r have "\<not> list_all (numeric_point B) ps"
          using check_points_None [of B ps] by simp
        with Inr r Some show ?thesis by (auto split: sum.splits)
      qed
    qed
  qed
qed

lemma parse_series_ok:
  assumes "series_points s = Inr ps" "list_all (numeric_point B) ps"
  shows "\<exists>r. parse_series B s = Inr r \<and> (r = None \<longleftrightarrow> ps = [])"
proof -
  from numeric_points_parse [OF assms(2)] obtain dps where
    d: "map_err (parse_data_point B) ps = Inr dps" "length dps = length ps" by blast
  from assms(1) obtain dv where "dict_get s ''data'' (JArr []) = Inr dv"
    by (auto simp: series_points_def and_then_Inr)
  then obtain n where "dict_get s ''name'' (JStr []) = Inr n"
    using dict_get_total by blast
  with assms(1) d show ?thesis
    by (cases "dps = []") (auto simp: parse_series_def)
qed

lemma parse_all_series_ok:
  assumes "map_err series_points items = Inr pss" "list_all (list_all (numeric_point B)) pss"
  shows "\<exists>rs. map_err (parse_series B) items = Inr rs \<and> (somes rs = [] \<longleftrightarrow> concat pss = [])"
  using assms
proof (induction items arbitrary: pss)
  case Nil
  then show ?case by auto
next
  case (Cons s items)
  from Cons.prems(1) obtain ps pss' where p: "series_points s = Inr ps"
    "map_err series_points items = Inr pss'" "pss = ps # pss'"
    by (auto split: sum.splits)
  with Cons.prems(2) have n: "list_all (numeric_point B) ps" "list_all (list_all (numeric_point B)) pss'"
    by simp_all
  from parse_series_ok [OF p(1) n(1)] obtain r where r: "parse_series B s = Inr r" "r = None \<longleftrightarrow> ps = []"
    by blast
  from Cons.IH [OF p(2) n(2)] obtain rs where rs: "map_err (parse_series B) items = Inr rs"
    "somes rs = [] \<longleftrightarrow> concat pss' = []" by blast
  from r rs p(3) show ?case by (cases r) auto
qed

lemma sum_list_lens:
  assumes "map_err series_len items = Inr lens"
  shows "\<exists>pss. map_err series_points items = Inr pss \<and> length (concat pss) = sum_list lens"
  using assms
proof (induction items arbitrary: lens)
  case Nil
  then show ?case by auto
next
  case (Cons s items)
  from Cons.prems obtain n lens' where l: "series_len s = Inr n" "map_err series_len items = Inr lens'"
    "lens = n # lens'" by (auto split: sum.splits)
  from l(1) obtain ps where "series_points s = Inr ps" "length ps = n"
    by (auto simp: series_len_points)
  moreover from Cons.IH [OF l(2)] obtain pss where "map_err series_points items = Inr pss"
    "length (concat pss) = sum_list lens'" by blast
  ultimately show ?case using l(3) by auto
qed

lemma map_err_functional: "map_err f xs = Inr a \<Longrightarrow> map_err f xs = Inr b \<Longrightarrow> a = b"
  by simp

lemma parse_chart_ok:
  assumes "validate_chart B data = Inr r" "is_valid r"
  shows "\<exists>ch. parse_chart B data = Inr (Some (ChartContent ch))
           \<and> chart_type ch = (case and_then (dict_get data ''chart_type'' (JStr ''bar'')) (\<lambda>c. Inr (chart_type_of c)) of
                 Inr (Some t) \<Rightarrow> t | Inr None \<Rightarrow> BAR | Inl e \<Rightarrow> BAR)"
proof -
  from validate_chart_valid [OF assms] obtain series ct items lens where
    g: "dict_get data ''series'' (JArr []) = Inr series"
       "dict_get data ''chart_type'' (JStr ''bar'') = Inr ct"
       "py_iter series = Inr items"
       "map_err series_len items = Inr lens" "CHART_MIN_DATA_POINTS \<le> sum_list lens"
       "check_series_values B items = Inr None"
    by blast
  from g(6) obtain pss where p: "map_err series_points items = Inr pss"
    "list_all (list_all (numeric_point B)) pss"
    by (auto simp: check_series_values_None)
  from sum_list_lens [OF g(4)] p(1) have "length (concat pss) = sum_list lens" by auto
  with g(5) have "0 < length (concat pss)" by (simp add: CHART_MIN_DATA_POINTS_def)
  then have ne: "concat pss \<noteq> []" by (metis length_greater_0_conv)
  from parse_all_series_ok [OF p] ne obtain rs where
    rs: "map_err (parse_series B) items = Inr rs" "somes rs \<noteq> []" by blast
  from g(1) obtain kvs where "data = JObj kvs" by (cases data) simp_all
  with g(1,2,3) rs show ?thesis
    by (simp add: parse_chart_def Let_def split: option.splits)
qed


lemma component_type_of_dict:
  assumes "component_type_of data = Inr t"
  shows "\<exists>kvs. data = JObj kvs"
  using assms by (cases data) (simp_all add: component_type_of_def)

lemma parse_component_chart:
  assumes "component_type_of data = Inr ''chart''"
  shows "\<exists>sz. dict_get data ''size'' JNull = Inr sz \<and>
     parse_component B data fresh =
       (if \<not> is_valid (validate_component B ''chart'' data) then Inr None
        else and_then (parse_chart B data) (\<lambda>c. Inr (map_option (\<lambda>cont. create cont sz fresh) c)))"
proof -
  from component_type_of_dict [OF assms] obtain kvs where "data = JObj kvs" by blast
  then obtain sz where "dict_get data ''size'' JNull = Inr sz" by simp
  with assms show ?thesis
    by (simp add: parse_component_def parse_content_def Let_def)
qed

lemma is_valid_chart:
  assumes "is_valid (validate_component B ''chart'' data)"
  shows "\<exists>r. validate_chart B data = Inr r \<and> is_valid r \<and> validate_component B ''chart'' data = r"
  using assms by (auto simp: validate_component_chart split: sum.splits)

text \<open>
  Claim C10: an unrecognised chart_type never makes parse_component reject a chart. For a raw
  chart object whose chart_type is none of bar, line, pie, doughnut, horizontal_bar,
  stacked_bar and which passes the chart constraints, the admitted component is a Chart
  whose chart_type is bar.
\<close>

theorem C10_unrecognized_chart_type_is_bar:
  assumes "component_type_of data = Inr ''chart''"
    and "dict_get data ''chart_type'' (JStr ''bar'') = Inr ct"
    and "chart_type_of ct = None"
    and "is_valid (validate_component B ''chart'' data)"
  shows "\<exists>ch sz. parse_component B data fresh
                    = Inr (Some \<lparr>comp_id = fresh, content = ChartContent ch, comp_size = sz\<rparr>)
               \<and> chart_type ch = BAR"
proof -
  from is_valid_chart [OF assms(4)] obtain r where r: "validate_chart B data = Inr r" "is_valid r"
    by blast
  from parse_chart_ok [OF r] assms(2,3) obtain ch where
    ch: "parse_chart B data = Inr (Some (ChartContent ch))" "chart_type ch = BAR"
    by auto
  from parse_component_chart [OF assms(1), of B fresh] assms(4) ch show ?thesis
    by (auto simp: create_def)
qed

lemma check_pie_points_numeric:
  assumes "list_all (numeric_point B) ps"
  shows "check_pie_points B ps =
           Inr (if list_all (\<lambda>p. \<not> negative_point B p) ps then None
                else Some (invalid POOR_FIT PieNegativeValue (Some ''bar'')))"
  using assms
proof (induction ps)
  case Nil
  then show ?case by simp
next
  case (Cons p ps)
  from Cons.prems obtain v x where v: "dict_get p ''value'' JNull = Inr v" "v \<noteq> JNull"
    "py_float B v = Inr x"
    by (auto simp: numeric_point_def split: sum.splits)
  from v(1,2) have d: "dict_get p ''value'' (JInt 0) = Inr v" by (rule dict_get_default)
  have n: "negative_point B p \<longleftrightarrow> x < 0" using v by (simp add: negative_point_def)
  from Cons d v(3) n show ?case by simp
qed

lemma py_first_iter:
  assumes "py_iter series = Inr (s # ss)" "series_points s = Inr ps"
  shows "py_first series = Inr s"
proof (cases series)
  case (JArr xs)
  with assms(1) show ?thesis by auto
next
  case (JStr cs)
  with assms(1) obtain c where "s = JStr [c]" by (cases cs) auto
  with assms(2) show ?thesis by (simp add: series_points_def)
next
  case (JObj kvs)
  with assms(1) obtain k where "s = JStr k" by (cases kvs) auto
  with assms(2) show ?thesis by (simp add: series_points_def)
qed (use assms(1) in simp_all)

lemma truthy_iter: "py_iter v = Inr xs \<Longrightarrow> truthy v \<longleftrightarrow> xs \<noteq> []"
  by (cases v) auto

lemma list_all_concat: "list_all P (concat xss) \<longleftrightarrow> list_all (list_all P) xss"
  by (induction xss) simp_all

lemma series_lens_of_points:
  assumes "map_err series_points items = Inr pss"
  shows "map_err series_len items = Inr (map length pss)"
  using assms
proof (induction items arbitrary: pss)
  case Nil
  then show ?case by auto
next
  case (Cons s items)
  from Cons.prems obtain ps pss' where p: "series_points s = Inr ps"
    "map_err series_points items = Inr pss'" "pss = ps # pss'"
    by (auto split: sum.splits)
  from p(1) have "series_len s = Inr (length ps)" by (simp add: series_len_points)
  with Cons.IH [OF p(2)] p(3) show ?case by simp
qed

lemma validate_chart_general:
  assumes "data_points_of data = Some pts" "2 \<le> length pts" "list_all (numeric_point B) pts"
  shows "\<exists>series ct items. dict_get data ''series'' (JArr []) = Inr series
     \<and> dict_get data ''chart_type'' (JStr ''bar'') = Inr ct
     \<and> py_iter series = Inr items
     \<and> validate_chart B data = check_chart_type B ct series items"
proof -
  from assms(1) obtain series items pss where
    g: "dict_get data ''series'' (JArr []) = Inr series" "py_iter series = Inr items"
       "map_err series_points items = Inr pss" "pts = concat pss"
    by (auto simp: data_points_of_def and_then_Inr split: sum.splits)
  from g(1) obtain ct where ct: "dict_get data ''chart_type'' (JStr ''bar'') = Inr ct"
    using dict_get_total by blast
  have l: "map_err series_len items = Inr (map length pss)"
    using g(3) by (rule series_lens_of_points)
  have s: "sum_list (map length pss) = length pts"
    unfolding g(4) by (simp add: length_concat)
  from assms(2) g(4) have "pss \<noteq> []" by auto
  with g(3) have "items \<noteq> []" by auto
  with g(2) have t: "truthy series" by (simp add: truthy_iter)
  have c: "check_series_values B items = Inr None"
    using g(3) assms(3) unfolding g(4) by (auto simp: check_series_values_None list_all_concat)
  from g(1,2) ct l s t c assms(2) have "validate_chart B data = check_chart_type B ct series items"
    by (simp add: validate_chart_def Let_def CHART_MIN_DATA_POINTS_def)
  with g(1,2) ct show ?thesis by blast
qed

lemma pie_poor_fit:
  assumes "is_pie_type data" "data_points_of data = Some pts" "2 \<le> length pts"
    "list_all (numeric_point B) pts" "first_series_points data = Some fps"
    "7 < length fps \<or> \<not> list_all (\<lambda>p. \<not> negative_point B p) fps"
  shows "validate_chart B data =
          Inr (if 7 < length fps then invalid POOR_FIT (PieTooManySlices (length fps)) (Some ''bar'')
               else invalid POOR_FIT PieNegativeValue (Some ''bar''))"
proof -
  from validate_chart_general [OF assms(2,3,4)] obtain series ct items where
    g: "dict_get data ''series'' (JArr []) = Inr series"
       "dict_get data ''chart_type'' (JStr ''bar'') = Inr ct"
       "py_iter series = Inr items"
       "validate_chart B data = check_chart_type B ct series items"
    by blast
  from assms(1) g(2) have pie: "ct = JStr ''pie'' \<or> ct = JStr ''doughnut''"
    by (auto simp: is_pie_type_def)
  from assms(5) g(1,3) obtain s ss where f: "items = s # ss" "series_points s = Inr fps"
    by (auto simp: first_series_points_def split: list.splits sum.splits)
  from g(3) f have pf: "py_first series = Inr s" by (auto intro: py_first_iter)
  from g(3) f(1) have t: "truthy series" by (simp add: truthy_iter)
  from f(2) obtain dv where dv: "dict_get s ''data'' (JArr []) = Inr dv" "py_iter dv = Inr fps"
    by (auto simp: series_points_def and_then_Inr)
  then have len: "py_len dv = Inr (length fps)" by (simp add: py_len_iter)
  from assms(2) g(1,3) f obtain pss where "map_err series_points items = Inr pss" "pts = concat pss"
    by (auto simp: data_points_of_def split: sum.splits)
  with f have "set fps \<subseteq> set pts" by (auto split: sum.splits)
  with assms(4) have num: "list_all (numeric_point B) fps"
    by (auto simp: list_all_iff)
  show ?thesis
    unfolding g(4) using pie pf t dv len assms(6) check_pie_points_numeric [OF num]
    by (auto simp: check_chart_type_def PIE_MAX_SLICES_def)
qed


lemma chart_admitted_points:
  assumes "component_type_of data = Inr ''chart''"
    and "parse_component B data fresh = Inr (Some c)"
  shows "\<exists>pts. data_points_of data = Some pts \<and> 2 \<le> length pts \<and> list_all (numeric_point B) pts"
proof -
  from parse_component_chart [OF assms(1), of B fresh] assms(2)
  have v: "is_valid (validate_component B ''chart'' data)"
    by (auto split: if_splits)
  from is_valid_chart [OF v] obtain r where r: "validate_chart B data = Inr r" "is_valid r"
    by blast
  from validate_chart_valid [OF r] obtain series items lens where
    g: "dict_get data ''series'' (JArr []) = Inr series" "py_iter series = Inr items"
       "map_err series_len items = Inr lens" "CHART_MIN_DATA_POINTS \<le> sum_list lens"
       "check_series_values B items = Inr None"
    by blast
  from g(5) obtain pss where p: "map_err series_points items = Inr pss"
    "list_all (list_all (numeric_point B)) pss"
    by (auto simp: check_series_values_None)
  from sum_list_lens [OF g(3)] p(1) have "length (concat pss) = sum_list lens" by auto
  with g(4) have "2 \<le> length (concat pss)" by (simp add: CHART_MIN_DATA_POINTS_def)
  moreover have "data_points_of data = Some (concat pss)"
    using g(1,2) p(1) by (simp add: data_points_of_def)
  moreover have "list_all (numeric_point B) (concat pss)"
    using p(2) by (simp add: list_all_concat)
  ultimately show ?thesis by blast
qed

lemma rejected_is_skipped:
  assumes "component_type_of data = Inr ''chart''"
    and "\<not> is_valid (validate_component B ''chart'' data)"
  shows "parse_component B data fresh = Inr None"
  using parse_component_chart [OF assms(1), of B fresh] assms(2) by auto

lemma skipped_not_in_output:
  assumes "\<And>fresh. parse_component B data fresh = Inr None"
  shows "parse_section_components B (data # rest) st = parse_section_components B rest st"
proof -
  obtain cs ids fresh where "st = (cs, ids, fresh)" by (cases st)
  with assms show ?thesis by simp
qed

text \<open>
  Claim C6, amended: a chart is admitted only if it has at least 2 data points in total and
  every data-point value is present and coercible to a number; a pie or doughnut chart that
  meets these general rules and whose first series has more than 7 points or contains a
  negative value is rejected with violation poor_fit and suggestion bar (the series after
  the first are not examined); every rejected chart is skipped and adds nothing to the
  output.
\<close>

theorem C6_chart_admission:
  assumes "component_type_of data = Inr ''chart''"
  shows "(\<forall>c. parse_component B data fresh = Inr (Some c) \<longrightarrow>
            (\<exists>pts. data_points_of data = Some pts \<and> 2 \<le> length pts
                   \<and> list_all (numeric_point B) pts))
       \<and> (\<forall>pts fps. is_pie_type data \<and> data_points_of data = Some pts \<and> 2 \<le> length pts
              \<and> list_all (numeric_point B) pts \<and> first_series_points data = Some fps
              \<and> (7 < length fps \<or> \<not> list_all (\<lambda>p. \<not> negative_point B p) fps) \<longrightarrow>
            \<not> is_valid (validate_component B ''chart'' data)
            \<and> violation (validate_component B ''chart'' data) = Some POOR_FIT
            \<and> suggestion (validate_component B ''chart'' data) = Some ''bar'')
       \<and> (\<not> is_valid (validate_component B ''chart'' data) \<longrightarrow>
            parse_component B data fresh = Inr None
            \<and> (\<forall>rest st. parse_section_components B (data # rest) st
                            = parse_section_components B rest st))"
proof (intro conjI allI impI)
  fix c
  assume "parse_component B data fresh = Inr (Some c)"
  with assms show "\<exists>pts. data_points_of data = Some pts \<and> 2 \<le> length pts
                   \<and> list_all (numeric_point B) pts"
    by (rule chart_admitted_points)
next
  fix pts fps
  assume h: "is_pie_type data \<and> data_points_of data = Some pts \<and> 2 \<le> length pts
              \<and> list_all (numeric_point B) pts \<and> first_series_points data = Some fps
              \<and> (7 < length fps \<or> \<not> list_all (\<lambda>p. \<not> negative_point B p) fps)"
  then have v: "validate_chart B data =
          Inr (if 7 < length fps then invalid POOR_FIT (PieTooManySlices (length fps)) (Some ''bar'')
               else invalid POOR_FIT PieNegativeValue (Some ''bar''))"
    by (intro pie_poor_fit [of data pts B fps]) simp_all
  then show "\<not> is_valid (validate_component B ''chart'' data)"
    by (simp add: validate_component_chart)
  from v show "violation (validate_component B ''chart'' data) = Some POOR_FIT"
    by (simp add: validate_component_chart invalid_def)
  from v show "suggestion (validate_component B ''chart'' data) = Some ''bar''"
    by (simp add: validate_component_chart invalid_def)
next
  assume n: "\<not> is_valid (validate_component B ''chart'' data)"
  with assms show "parse_component B data fresh = Inr None"
    by (rule rejected_is_skipped)
  fix rest st
  from assms n have "\<And>fr. parse_component B data fr = Inr None"
    by (rule rejected_is_skipped)
  then show "parse_section_components B (data # rest) st = parse_section_components B rest st"
    by (rule skipped_not_in_output)
qed


text \<open>
  Claim C6, as stated, says that a pie or doughnut chart containing a negative value is
  rejected. A pie chart whose negative value sits in its second series is admitted.
\<close>

theorem C6_negative_in_later_series_counterexample:
  "is_pie_type pie_negative_in_second_series
   \<and> data_points_of pie_negative_in_second_series
       = Some [raw_point ''a'' 1, raw_point ''b'' 2, raw_point ''c'' (- 5)]
   \<and> negative_point example_builtins (raw_point ''c'' (- 5))
   \<and> parse_component example_builtins pie_negative_in_second_series 0 =
       Inr (Some \<lparr>comp_id = 0,
         content = ChartContent
           \<lparr>chart_type = PIE,
            chart_series =
              [\<lparr>cs_name = JStr ''first'',
                cs_data = [\<lparr>dp_label = ''a'', dp_value = 1, dp_category = JNull\<rparr>,
                           \<lparr>dp_label = ''b'', dp_value = 2, dp_category = JNull\<rparr>]\<rparr>,
               \<lparr>cs_name = JStr ''second'',
                cs_data = [\<lparr>dp_label = ''c'', dp_value = - 5, dp_category = JNull\<rparr>]\<rparr>],
            chart_title = JNull, x_axis_label = JNull, y_axis_label = JNull,
            chart_caption = JNull\<rparr>,
         comp_size = JNull\<rparr>)"
proof (intro conjI)
  show "is_pie_type pie_negative_in_second_series"
    by code_simp
  show "data_points_of pie_negative_in_second_series
       = Some [raw_point ''a'' 1, raw_point ''b'' 2, raw_point ''c'' (- 5)]"
    by code_simp
  show "negative_point example_builtins (raw_point ''c'' (- 5))"
    by code_simp
  show "parse_component example_builtins pie_negative_in_second_series 0 =
       Inr (Some \<lparr>comp_id = 0,
         content = ChartContent
           \<lparr>chart_type = PIE,
            chart_series =
              [\<lparr>cs_name = JStr ''first'',
                cs_data = [\<lparr>dp_label = ''a'', dp_value = 1, dp_category = JNull\<rparr>,
                           \<lparr>dp_label = ''b'', dp_value = 2, dp_category = JNull\<rparr>]\<rparr>,
               \<lparr>cs_name = JStr ''second'',
                cs_data = [\<lparr>dp_label = ''c'', dp_value = - 5, dp_category = JNull\<rparr>]\<rparr>],
            chart_title = JNull, x_axis_label = JNull, y_axis_label = JNull,
            chart_caption = JNull\<rparr>,
         comp_size = JNull\<rparr>)"
    by code_simp
qed

theorem C6_chart_admission_witness:
  "component_type_of bar_with_two_points = Inr ''chart''
   \<and> parse_component example_builtins bar_with_two_points 0 \<noteq> Inr None
   \<and> data_points_of bar_with_two_points = Some [raw_point ''a'' 150, raw_point ''b'' 230]
   \<and> component_type_of pie_with_eight_slices = Inr ''chart''
   \<and> is_pie_type pie_with_eight_slices
   \<and> violation (validate_component example_builtins ''chart'' pie_with_eight_slices) = Some POOR_FIT
   \<and> suggestion (validate_component example_builtins ''chart'' pie_with_eight_slices) = Some ''bar''
   \<and> parse_component example_builtins pie_with_eight_slices 0 = Inr None
   \<and> component_type_of chart_with_one_point = Inr ''chart''
   \<and> \<not> is_valid (validate_component example_builtins ''chart'' chart_with_one_point)
   \<and> parse_component example_builtins chart_with_one_point 0 = Inr None"
proof -
  define P where "P = [raw_point ''a'' 1, raw_point ''b'' 2, raw_point ''c'' 3, raw_point ''d'' 4,
           raw_point ''e'' 5, raw_point ''f'' 6, raw_point ''g'' 7, raw_point ''h'' 8]"
  have a1: "component_type_of bar_with_two_points = Inr ''chart''" by code_simp
  have a2: "parse_component example_builtins bar_with_two_points 0 \<noteq> Inr None" by code_simp
  have a3: "data_points_of bar_with_two_points = Some [raw_point ''a'' 150, raw_point ''b'' 230]"
    by code_simp
  have b1: "component_type_of pie_with_eight_slices = Inr ''chart''" by code_simp
  have b2: "is_pie_type pie_with_eight_slices" by code_simp
  have b3: "data_points_of pie_with_eight_slices = Some P" unfolding P_def by code_simp
  have b4: "first_series_points pie_with_eight_slices = Some P" unfolding P_def by code_simp
  have b5: "list_all (numeric_point example_builtins) P" unfolding P_def by code_simp
  have b6: "2 \<le> length P" "7 < length P" unfolding P_def by simp_all
  have c1: "component_type_of chart_with_one_point = Inr ''chart''" by code_simp
  have c2: "\<not> is_valid (validate_component example_builtins ''chart'' chart_with_one_point)"
    by code_simp
  have hyp: "is_pie_type pie_with_eight_slices \<and> data_points_of pie_with_eight_slices = Some P
      \<and> 2 \<le> length P \<and> list_all (numeric_point example_builtins) P
      \<and> first_series_points pie_with_eight_slices = Some P
      \<and> (7 < length P \<or> \<not> list_all (\<lambda>p. \<not> negative_point example_builtins p) P)"
    using b2 b3 b4 b5 b6 by (intro conjI disjI1)
  note th = C6_chart_admission [OF b1, of example_builtins 0]
  note r1 = th [THEN conjunct2, THEN conjunct1, rule_format, OF hyp]
  note b7 = r1 [THEN conjunct1]
  note b8 = r1 [THEN conjunct2, THEN conjunct1]
  note b9 = r1 [THEN conjunct2, THEN conjunct2]
  note b10 = th [THEN conjunct2, THEN conjunct2, rule_format, OF b7, THEN conjunct1]
  note c = C6_chart_admission [OF c1, of example_builtins 0, THEN conjunct2, THEN conjunct2,
      rule_format, OF c2, THEN conjunct1]
  from a1 a2 a3 b1 b2 b8 b9 b10 c1 c2 c show ?thesis by (intro conjI)
qed

theorem C10_unrecognized_chart_type_is_bar_witness:
  "component_type_of scatter_with_two_points = Inr ''chart''
   \<and> dict_get scatter_with_two_points ''chart_type'' (JStr ''bar'') = Inr (JStr ''scatter'')
   \<and> chart_type_of (JStr ''scatter'') = None
   \<and> is_valid (validate_component example_builtins ''chart'' scatter_with_two_points)
   \<and> (\<exists>ch sz. parse_component example_builtins scatter_with_two_points 7
                    = Inr (Some \<lparr>comp_id = 7, content = ChartContent ch, comp_size = sz\<rparr>)
               \<and> chart_type ch = BAR)"
proof -
  have a: "component_type_of scatter_with_two_points = Inr ''chart''" by code_simp
  have b: "dict_get scatter_with_two_points ''chart_type'' (JStr ''bar'') = Inr (JStr ''scatter'')"
    by code_simp
  have c: "chart_type_of (JStr ''scatter'') = None" by code_simp
  have d: "is_valid (validate_component example_builtins ''chart'' scatter_with_two_points)"
    by code_simp
  from a b c d C10_unrecognized_chart_type_is_bar [OF a b c d, of 7] show ?thesis
    by (intro conjI)
qed


lemma parse_items_filter:
  assumes "map_err (parse_item B) xs = Inr ps"
  shows "\<exists>ys. filter_err has_name xs = Inr ys \<and> length (somes ps) = length ys"
  using assms
proof (induction xs arbitrary: ps)
  case Nil
  then show ?case by auto
next
  case (Cons x xs)
  from Cons.prems obtain p ps' where p: "parse_item B x = Inr p" "map_err (parse_item B) xs = Inr ps'"
    "ps = p # ps'" by (auto split: sum.splits)
  from p(1) obtain keep where k: "has_name x = Inr keep" "keep \<longleftrightarrow> p \<noteq> None"
    by (auto simp: parse_item_def and_then_Inr split: if_splits)
  from Cons.IH [OF p(2)] obtain ys where "filter_err has_name xs = Inr ys" "length (somes ps') = length ys"
    by blast
  with k p(3) show ?case by (cases p) auto
qed

lemma parse_attribute_Some:
  assumes "parse_attribute B x = Inr (Some a)"
  shows "has_name_and_values x = Inr True \<and> attr_matches B x a"
proof -
  from assms have k: "has_name_and_values x = Inr True"
    by (auto simp: parse_attribute_def and_then_Inr split: if_splits)
  with assms obtain n v vs where g: "dict_get x ''values'' (JArr []) = Inr v" "py_iter v = Inr vs"
    "a = \<lparr>attr_name = py_str B n, attr_values = map (py_str B) vs\<rparr>"
    by (auto simp: parse_attribute_def and_then_Inr)
  from k obtain v' where v': "dict_get x ''values'' JNull = Inr v'" "truthy v'"
    by (auto simp: has_name_and_values_def and_then_Inr split: if_splits)
  from v' g(1) have "v' = v" by (cases x) (auto split: option.splits)
  with v'(2) g(2) have "vs \<noteq> []" by (simp add: truthy_iter)
  moreover from g(1,2) have "attribute_values_len x = Inr (length vs)"
    by (simp add: attribute_values_len_def py_len_iter)
  ultimately show ?thesis using k g(3) by (simp add: attr_matches_def)
qed

lemma parse_attribute_None:
  assumes "parse_attribute B x = Inr None"
  shows "has_name_and_values x = Inr False"
  using assms by (auto simp: parse_attribute_def and_then_Inr split: if_splits)

lemma parse_attributes_filter:
  assumes "map_err (parse_attribute B) xs = Inr ps"
  shows "\<exists>ys. filter_err has_name_and_values xs = Inr ys \<and> list_all2 (attr_matches B) ys (somes ps)"
  using assms
proof (induction xs arbitrary: ps)
  case Nil
  then show ?case by auto
next
  case (Cons x xs)
  from Cons.prems obtain p ps' where p: "parse_attribute B x = Inr p"
    "map_err (parse_attribute B) xs = Inr ps'" "ps = p # ps'" by (auto split: sum.splits)
  from Cons.IH [OF p(2)] obtain ys where ys: "filter_err has_name_and_values xs = Inr ys"
    "list_all2 (attr_matches B) ys (somes ps')" by blast
  show ?case
  proof (cases p)
    case None
    with p(1) have "has_name_and_values x = Inr False" by (simp add: parse_attribute_None)
    with ys p(3) None show ?thesis by simp
  next
    case (Some a)
    with p(1) have "has_name_and_values x = Inr True" "attr_matches B x a"
      using parse_attribute_Some by blast+
    with ys p(3) Some show ?thesis by simp
  qed
qed

lemma attr_matches_lens:
  assumes "list_all2 (attr_matches B) xs ys"
  shows "map_err attribute_values_len xs = Inr (map (\<lambda>a. length (attr_values a)) ys)"
  using assms by (induction xs ys rule: list_all2_induct) (auto simp: attr_matches_def)

lemma validate_comparison_valid:
  assumes "validate_comparison data = Inr r" "is_valid r"
  shows "\<exists>items valid_items. and_then (dict_get data ''items'' (JArr [])) py_iter = Inr items
      \<and> filter_err has_name items = Inr valid_items \<and> 2 \<le> length valid_items
      \<and> (\<exists>kept. valid_attributes_of data = Inr kept \<and> 1 \<le> length kept)"
proof -
  from assms(1) obtain items attributes valid_items valid_attributes where
    g: "dict_get data ''items'' (JArr []) = Inr items"
       "dict_get data ''attributes'' (JArr []) = Inr attributes"
       "and_then (py_iter items) (filter_err has_name) = Inr valid_items"
       "and_then (py_iter attributes) (filter_err has_name_and_values) = Inr valid_attributes"
    and r: "(if length valid_items < COMPARISON_MIN_ITEMS
       then Inr (invalid INSUFFICIENT_DATA (ComparisonTooFewItems (length valid_items))
                   (Some ''text_block''))
       else if length valid_attributes < COMPARISON_MIN_ATTRIBUTES
       then Inr (invalid INSUFFICIENT_DATA ComparisonNoAttributes (Some ''text_block''))
       else and_then (map_err attribute_values_len valid_attributes) (\<lambda>lens. Inr valid)) = Inr r"
    unfolding validate_comparison_def and_then_Inr by blast
  from r assms(2) have l: "2 \<le> length valid_items" "1 \<le> length valid_attributes"
    by (auto simp: COMPARISON_MIN_ITEMS_def COMPARISON_MIN_ATTRIBUTES_def Suc_le_eq split: if_splits)
  from g(1,3) obtain its where "and_then (dict_get data ''items'' (JArr [])) py_iter = Inr its"
    "filter_err has_name its = Inr valid_items" by (auto simp: and_then_Inr)
  moreover from g(2,4) have "valid_attributes_of data = Inr valid_attributes"
    by (auto simp: valid_attributes_of_def and_then_Inr)
  ultimately show ?thesis using l by blast
qed

lemma parse_component_comparison:
  assumes "component_type_of data = Inr ''comparison''"
  shows "\<exists>sz. dict_get data ''size'' JNull = Inr sz \<and>
     parse_component B data fresh =
       (if \<not> is_valid (validate_component B ''comparison'' data) then Inr None
        else and_then (parse_comparison B data) (\<lambda>c. Inr (map_option (\<lambda>cont. create cont sz fresh) c)))"
proof -
  from component_type_of_dict [OF assms] obtain kvs where "data = JObj kvs" by blast
  then obtain sz where "dict_get data ''size'' JNull = Inr sz" by simp
  with assms show ?thesis
    by (simp add: parse_component_def parse_content_def Let_def)
qed

lemma parse_comparison_Some:
  assumes "parse_comparison B data = Inr (Some cont)"
  shows "\<exists>cmp items ps kept qs. cont = ComparisonContent cmp
     \<and> and_then (dict_get data ''items'' (JArr [])) py_iter = Inr items
     \<and> map_err (parse_item B) items = Inr ps \<and> cmp_items cmp = somes ps
     \<and> and_then (dict_get data ''attributes'' (JArr [])) py_iter = Inr kept
     \<and> map_err (parse_attribute B) kept = Inr qs \<and> cmp_attributes cmp = somes qs"
proof -
  from assms obtain items_data ps attributes_data qs where
    g: "dict_get data ''items'' (JArr []) = Inr items_data"
       "and_then (py_iter items_data) (map_err (parse_item B)) = Inr ps"
       "dict_get data ''attributes'' (JArr []) = Inr attributes_data"
       "and_then (py_iter attributes_data) (map_err (parse_attribute B)) = Inr qs"
    and r: "(if somes ps = [] \<or> somes qs = [] then Inr None
         else
           and_then (dict_get data ''title'' JNull) (\<lambda>t.
           and_then (dict_get data ''caption'' JNull) (\<lambda>c.
             Inr (Some (ComparisonContent
               \<lparr>cmp_items = somes ps, cmp_attributes = somes qs, cmp_title = t,
                cmp_caption = c\<rparr>))))) = Inr (Some cont)"
    unfolding parse_comparison_def and_then_Inr Let_def by blast
  from r obtain t c where "cont = ComparisonContent \<lparr>cmp_items = somes ps, cmp_attributes = somes qs, cmp_title = t,
                cmp_caption = c\<rparr>"
    by (auto simp: and_then_Inr split: if_splits)
  moreover from g(1,2) obtain items where "and_then (dict_get data ''items'' (JArr [])) py_iter = Inr items"
    "map_err (parse_item B) items = Inr ps" by (auto simp: and_then_Inr)
  moreover from g(3,4) obtain kept where "and_then (dict_get data ''attributes'' (JArr [])) py_iter = Inr kept"
    "map_err (parse_attribute B) kept = Inr qs" by (auto simp: and_then_Inr)
  ultimately show ?thesis by (intro exI [of _ "\<lparr>cmp_items = somes ps, cmp_attributes = somes qs, cmp_title = t,
                cmp_caption = c\<rparr>"] exI [of _ items] exI [of _ ps] exI [of _ kept] exI [of _ qs]) simp
qed

text \<open>
  Claim C9, amended: every comparison admitted to the output has at least two items and at
  least one attribute, and every attribute has a non-empty values list with as many values
  as the raw attribute had; that number need not equal the number of items (a mismatch is
  only logged).
\<close>

theorem C9_admitted_comparison_shape:
  assumes "component_type_of data = Inr ''comparison''"
    and "parse_component B data fresh = Inr (Some c)"
  shows "\<exists>cmp kept. content c = ComparisonContent cmp
      \<and> 2 \<le> length (cmp_items cmp)
      \<and> 1 \<le> length (cmp_attributes cmp)
      \<and> (\<forall>a \<in> set (cmp_attributes cmp). attr_values a \<noteq> [])
      \<and> valid_attributes_of data = Inr kept
      \<and> map_err attribute_values_len kept
           = Inr (map (\<lambda>a. length (attr_values a)) (cmp_attributes cmp))"
proof -
  from parse_component_comparison [OF assms(1), of B fresh] obtain sz where
    e: "parse_component B data fresh =
       (if \<not> is_valid (validate_component B ''comparison'' data) then Inr None
        else and_then (parse_comparison B data) (\<lambda>c. Inr (map_option (\<lambda>cont. create cont sz fresh) c)))"
    by blast
  from e assms(2) have v: "is_valid (validate_component B ''comparison'' data)"
    by (auto split: if_splits)
  with e assms(2) have "and_then (parse_comparison B data)
      (\<lambda>c. Inr (map_option (\<lambda>cont. create cont sz fresh) c)) = Inr (Some c)"
    by simp
  then obtain cont where pc: "parse_comparison B data = Inr (Some cont)"
    and c: "c = create cont sz fresh"
    by (auto simp: and_then_Inr)
  from v obtain r where r: "validate_comparison data = Inr r" "is_valid r"
    by (auto simp: validate_component_comparison split: sum.splits)
  from validate_comparison_valid [OF r] obtain items valid_items kept where
    vi: "and_then (dict_get data ''items'' (JArr [])) py_iter = Inr items"
        "filter_err has_name items = Inr valid_items" "2 \<le> length valid_items"
        "valid_attributes_of data = Inr kept" "1 \<le> length kept"
    by blast
  from parse_comparison_Some [OF pc] obtain cmp items' ps raw qs where
    p: "cont = ComparisonContent cmp"
       "and_then (dict_get data ''items'' (JArr [])) py_iter = Inr items'"
       "map_err (parse_item B) items' = Inr ps" "cmp_items cmp = somes ps"
       "and_then (dict_get data ''attributes'' (JArr [])) py_iter = Inr raw"
       "map_err (parse_attribute B) raw = Inr qs" "cmp_attributes cmp = somes qs"
    by blast
  from vi(1) p(2) have "items' = items" by simp
  with parse_items_filter [OF p(3)] vi(2) have li: "length (somes ps) = length valid_items" by auto
  from parse_attributes_filter [OF p(6)] obtain ys where
    ys: "filter_err has_name_and_values raw = Inr ys" "list_all2 (attr_matches B) ys (somes qs)"
    by blast
  from p(5) ys(1) vi(4) have "ys = kept" by (simp add: valid_attributes_of_def)
  with ys(2) have m: "list_all2 (attr_matches B) kept (somes qs)" by simp
  then have la: "length (somes qs) = length kept" by (simp add: list_all2_lengthD)
  from m have ne: "\<forall>a \<in> set (somes qs). attr_values a \<noteq> []"
    by (auto simp: list_all2_conv_all_nth in_set_conv_nth attr_matches_def)
  from m have ml: "map_err attribute_values_len kept = Inr (map (\<lambda>a. length (attr_values a)) (somes qs))"
    by (rule attr_matches_lens)
  have "content c = ComparisonContent cmp" using c p(1) by (simp add: create_def)
  with li la vi(3,4,5) p(4,7) ne ml show ?thesis by auto
qed

text \<open>
  Claim C9, as stated, fails: a comparison of two items whose attribute has one value is
  admitted, with that single value.
\<close>

theorem C9_short_attribute_counterexample:
  "parse_component example_builtins comparison_with_short_attribute 0 =
     Inr (Some \<lparr>comp_id = 0,
       content = ComparisonContent
         \<lparr>cmp_items = [\<lparr>item_name = ''Labor'', item_description = JNull\<rparr>,
                       \<lparr>item_name = ''Liberal'', item_description = JNull\<rparr>],
          cmp_attributes = [\<lparr>attr_name = ''Tax Policy'',
                              attr_values = [''Increase for high earners'']\<rparr>],
          cmp_title = JNull, cmp_caption = JNull\<rparr>,
       comp_size = JNull\<rparr>)"
  by code_simp

theorem C9_admitted_comparison_shape_witness:
  "component_type_of comparison_two_by_two = Inr ''comparison''
   \<and> parse_component example_builtins comparison_two_by_two 3 =
       Inr (Some \<lparr>comp_id = 3,
         content = ComparisonContent
           \<lparr>cmp_items = [\<lparr>item_name = ''Labor'', item_description = JNull\<rparr>,
                         \<lparr>item_name = ''Liberal'', item_description = JNull\<rparr>],
            cmp_attributes = [\<lparr>attr_name = ''Tax Policy'',
                                attr_values = [''Increase'', ''Reduce'']\<rparr>],
            cmp_title = JNull, cmp_caption = JNull\<rparr>,
         comp_size = JNull\<rparr>)
   \<and> (\<exists>cmp kept. ComparisonContent
           \<lparr>cmp_items = [\<lparr>item_name = ''Labor'', item_description = JNull\<rparr>,
                         \<lparr>item_name = ''Liberal'', item_description = JNull\<rparr>],
            cmp_attributes = [\<lparr>attr_name = ''Tax Policy'',
                                attr_values = [''Increase'', ''Reduce'']\<rparr>],
            cmp_title = JNull, cmp_caption = JNull\<rparr> = ComparisonContent cmp
      \<and> 2 \<le> length (cmp_items cmp)
      \<and> 1 \<le> length (cmp_attributes cmp)
      \<and> (\<forall>a \<in> set (cmp_attributes cmp). attr_values a \<noteq> [])
      \<and> valid_attributes_of comparison_two_by_two = Inr kept
      \<and> map_err attribute_values_len kept
           = Inr (map (\<lambda>a. length (attr_values a)) (cmp_attributes cmp)))"
proof -
  have a: "component_type_of comparison_two_by_two = Inr ''comparison''"
    by code_simp
  have b: "parse_component example_builtins comparison_two_by_two 3 =
       Inr (Some \<lparr>comp_id = 3,
         content = ComparisonContent
           \<lparr>cmp_items = [\<lparr>item_name = ''Labor'', item_description = JNull\<rparr>,
                         \<lparr>item_name = ''Liberal'', item_description = JNull\<rparr>],
            cmp_attributes = [\<lparr>attr_name = ''Tax Policy'',
                                attr_values = [''Increase'', ''Reduce'']\<rparr>],
            cmp_title = JNull, cmp_caption = JNull\<rparr>,
         comp_size = JNull\<rparr>)"
    by code_simp
  from C9_admitted_comparison_shape [OF a b]
  have c: "\<exists>cmp kept. ComparisonContent
           \<lparr>cmp_items = [\<lparr>item_name = ''Labor'', item_description = JNull\<rparr>,
                         \<lparr>item_name = ''Liberal'', item_description = JNull\<rparr>],
            cmp_attributes = [\<lparr>attr_name = ''Tax Policy'',
                                attr_values = [''Increase'', ''Reduce'']\<rparr>],
            cmp_title = JNull, cmp_caption = JNull\<rparr> = ComparisonContent cmp
      \<and> 2 \<le> length (cmp_items cmp)
      \<and> 1 \<le> length (cmp_attributes cmp)
      \<and> (\<forall>a \<in> set (cmp_attributes cmp). attr_values a \<noteq> [])
      \<and> valid_attributes_of comparison_two_by_two = Inr kept
      \<and> map_err attribute_values_len kept
           = Inr (map (\<lambda>a. length (attr_values a)) (cmp_attributes cmp))"
    by simp
  from a b c show ?thesis by (intro conjI)
qed

section \<open>Theorems: composer\<close>

lemma parse_component_id:
  assumes "parse_component B data fresh = Inr (Some c)"
  shows "comp_id c = fresh"
  using assms
  by (auto simp: parse_component_def and_then_Inr Let_def create_def split: if_splits)

lemma fails_validation_skipped:
  assumes "fails_validation B c"
  shows "parse_component B c fresh = Inr None"
proof -
  from assms obtain t where t: "component_type_of c = Inr t" "\<not> is_valid (validate_component B t c)"
    by (auto simp: fails_validation_def split: sum.splits)
  from component_type_of_dict [OF t(1)] obtain kvs where "c = JObj kvs" by blast
  then obtain sz where "dict_get c ''size'' JNull = Inr sz" by simp
  with t show ?thesis by (simp add: parse_component_def Let_def)
qed

lemma parse_section_components_grows:
  assumes "parse_section_components B comps (cs, ids, n) = Inr (cs', ids', n')"
  shows "\<exists>new. cs' = cs @ new \<and> ids' = ids @ map comp_id new"
  using assms
proof (induction comps arbitrary: cs ids n)
  case Nil
  then show ?case by simp
next
  case (Cons c comps)
  show ?case
  proof (cases "parse_component B c n")
    case (Inl e)
    with Cons.prems show ?thesis by simp
  next
    case (Inr r)
    show ?thesis
    proof (cases r)
      case None
      with Inr Cons.prems have "parse_section_components B comps (cs, ids, n) = Inr (cs', ids', n')"
        by simp
      then show ?thesis by (rule Cons.IH)
    next
      case (Some comp)
      with Inr Cons.prems have
        "parse_section_components B comps (cs @ [comp], ids @ [comp_id comp], Suc n) = Inr (cs', ids', n')"
        by simp
      from Cons.IH [OF this] obtain new where "cs' = (cs @ [comp]) @ new"
        "ids' = (ids @ [comp_id comp]) @ map comp_id new" by blast
      then have "cs' = cs @ (comp # new) \<and> ids' = ids @ map comp_id (comp # new)" by simp
      then show ?thesis by blast
    qed
  qed
qed

lemma parse_section_components_all_fail:
  assumes "list_all (fails_validation B) comps"
  shows "parse_section_components B comps st = Inr st"
  using assms
proof (induction comps)
  case Nil
  then show ?case by simp
next
  case (Cons c comps)
  obtain cs ids n where st: "st = (cs, ids, n)" by (cases st)
  from Cons.prems have "parse_component B c n = Inr None" by (simp add: fails_validation_skipped)
  with Cons st show ?case by simp
qed

lemma build_sections_grows:
  assumes "build_sections B secs (cs, ss, n) = Inr (cs', ss', n')"
  shows "\<exists>new_cs new_ss. cs' = cs @ new_cs \<and> ss' = ss @ new_ss
           \<and> concat (map component_ids new_ss) = map comp_id new_cs
           \<and> (\<forall>s \<in> set new_ss. component_ids s \<noteq> [])"
  using assms
proof (induction secs arbitrary: cs ss n)
  case Nil
  then show ?case by simp
next
  case (Cons sd secs)
  from Cons.prems obtain comps where c: "section_components sd = Inr comps"
    by (auto split: sum.splits)
  with Cons.prems obtain cs1 ids n1 where p: "parse_section_components B comps (cs, [], n) = Inr (cs1, ids, n1)"
    by (auto split: sum.splits)
  from parse_section_components_grows [OF p] obtain new where
    new: "cs1 = cs @ new" "ids = map comp_id new" by auto
  show ?case
  proof (cases "ids = []")
    case True
    with c p Cons.prems have "build_sections B secs (cs1, ss, n1) = Inr (cs', ss', n')" by simp
    from Cons.IH [OF this] obtain new_cs new_ss where
      "cs' = cs1 @ new_cs" "ss' = ss @ new_ss" "concat (map component_ids new_ss) = map comp_id new_cs"
      "\<forall>s \<in> set new_ss. component_ids s \<noteq> []" by blast
    with new True have "cs' = cs @ new_cs \<and> ss' = ss @ new_ss
       \<and> concat (map component_ids new_ss) = map comp_id new_cs
           \<and> (\<forall>s \<in> set new_ss. component_ids s \<noteq> [])" by simp
    then show ?thesis by blast
  next
    case False
    with c p Cons.prems obtain s where s: "make_section sd ids = Inr s"
      "build_sections B secs (cs1, ss @ [s], n1) = Inr (cs', ss', n')"
      by (auto split: sum.splits)
    from s(1) have sid: "component_ids s = ids"
      by (auto simp: make_section_def and_then_Inr)
    from Cons.IH [OF s(2)] obtain new_cs new_ss where
      "cs' = cs1 @ new_cs" "ss' = (ss @ [s]) @ new_ss" "concat (map component_ids new_ss) = map comp_id new_cs"
      "\<forall>s \<in> set new_ss. component_ids s \<noteq> []" by blast
    with new sid False have "cs' = cs @ (new @ new_cs) \<and> ss' = ss @ (s # new_ss)
       \<and> concat (map component_ids (s # new_ss)) = map comp_id (new @ new_cs)
           \<and> (\<forall>s \<in> set (s # new_ss). component_ids s \<noteq> [])" by simp
    then show ?thesis by blast
  qed
qed

lemma build_sections_append:
  "build_sections B (xs @ ys) st =
     (case build_sections B xs st of Inl e \<Rightarrow> Inl e | Inr st' \<Rightarrow> build_sections B ys st')"
proof (induction xs arbitrary: st)
  case Nil
  then show ?case by simp
next
  case (Cons x xs)
  obtain cs ss n where st: "st = (cs, ss, n)" by (cases st)
  show ?case unfolding st
    by (simp add: Cons.IH split: sum.splits prod.splits)
qed

lemma build_sections_drop:
  assumes "all_components_fail B s"
  shows "build_sections B (s # ys) st = build_sections B ys st"
proof -
  obtain cs ss n where st: "st = (cs, ss, n)" by (cases st)
  from assms obtain comps where "section_components s = Inr comps" "list_all (fails_validation B) comps"
    by (auto simp: all_components_fail_def split: sum.splits)
  then show ?thesis unfolding st by (simp add: parse_section_components_all_fail)
qed

lemma layout_resolves_concat:
  assumes "concat (map component_ids (sections l)) = map comp_id cs"
    "\<forall>s \<in> set (sections l). component_ids s \<noteq> []"
  shows "layout_resolves l cs"
proof -
  have "i \<in> set (map comp_id cs)" if "s \<in> set (sections l)" "i \<in> set (component_ids s)" for s i
  proof -
    from that have "i \<in> set (concat (map component_ids (sections l)))" by auto
    with assms(1) show ?thesis by simp
  qed
  with assms(2) show ?thesis by (auto simp: layout_resolves_def list_all_iff)
qed

lemma build_layout_resolves:
  assumes "build_layout_from_data B data fresh = Inr (layout, components, fresh')"
  shows "layout_resolves layout components
       \<and> concat (map component_ids (sections layout)) = map comp_id components"
proof -
  from assms obtain secs cs ss n t s where
    b: "build_sections B secs ([], [], fresh) = Inr (cs, ss, n)"
    and l: "layout = \<lparr>sections = ss, layout_title = t, layout_subtitle = s\<rparr>" "components = cs"
    by (auto simp: build_layout_from_data_def and_then_Inr)
  from build_sections_grows [OF b] have
    "concat (map component_ids ss) = map comp_id cs" "\<forall>s \<in> set ss. component_ids s \<noteq> []"
    by auto
  with l show ?thesis by (simp add: layout_resolves_concat)
qed

lemma build_layout_drop:
  assumes "all_components_fail B s"
  shows "build_layout_from_data B (JObj ((''sections'', JArr (xs @ s # ys)) # kvs)) fresh
       = build_layout_from_data B (JObj ((''sections'', JArr (xs @ ys)) # kvs)) fresh"
proof -
  have "build_sections B (xs @ s # ys) st = build_sections B (xs @ ys) st" for st
    by (simp add: build_sections_append build_sections_drop [OF assms] split: sum.splits)
  then show ?thesis by (simp add: build_layout_from_data_def)
qed

lemma layout_resolves_mono:
  assumes "layout_resolves l cs" "set cs \<subseteq> set cs'"
  shows "layout_resolves l cs'"
  using assms unfolding layout_resolves_def list_all_iff by (simp add: image_iff) blast

lemma add_extraction_warnings_superset:
  "set cs \<subseteq> set (fst (add_extraction_warnings cs exs n))"
proof -
  have "set cs \<subseteq> set (insert_near_top x cs)" for x
  proof -
    have "set (take (min 1 (length cs)) cs) \<union> set (drop (min 1 (length cs)) cs) = set cs"
      by (metis append_take_drop_id set_append)
    then show ?thesis by (auto simp: insert_near_top_def Let_def)
  qed
  then show ?thesis by (auto simp: add_extraction_warnings_def Let_def)
qed

lemma fallback_layout_resolves:
  "fallback_layout rtext n = (l, cs, n') \<Longrightarrow> layout_resolves l cs"
  by (auto simp: fallback_layout_def Let_def layout_resolves_def create_def)

lemma fallback_response_resolves:
  "fallback_response n = (l, cs, n') \<Longrightarrow> layout_resolves l cs"
  by (auto simp: fallback_response_def Let_def layout_resolves_def create_def)

lemma insufficient_resolves:
  "composer_insufficient_data_response q exs n = (l, cs, n') \<Longrightarrow> layout_resolves l cs"
  by (auto simp: composer_insufficient_data_response_def Let_def layout_resolves_def create_def)

lemma parse_response_resolves:
  assumes "parse_response B rtext loaded n = Inr (l, cs, n')"
  shows "layout_resolves l cs"
proof (cases loaded)
  case None
  with assms show ?thesis by (auto simp: parse_response_def intro: fallback_layout_resolves)
next
  case (Some data)
  show ?thesis
  proof (cases "build_layout_from_data B data n")
    case (Inl e)
    with Some assms have "fallback_layout rtext n = (l, cs, n')"
      by (cases e) (auto simp: parse_response_def)
    then show ?thesis by (rule fallback_layout_resolves)
  next
    case (Inr r)
    with Some assms have "build_layout_from_data B data n = Inr (l, cs, n')"
      by (simp add: parse_response_def)
    then show ?thesis by (simp add: build_layout_resolves)
  qed
qed

lemma compose_resolves:
  assumes "compose B q exs reply n = (l, cs, n')"
  shows "layout_resolves l cs"
proof (cases "filter is_complete exs = []")
  case True
  with assms show ?thesis by (auto simp: compose_def intro: insufficient_resolves)
next
  case False
  show ?thesis
  proof (cases reply)
    case (Inl e)
    with False assms show ?thesis by (auto simp: compose_def intro: fallback_response_resolves)
  next
    case (Inr r)
    obtain rtext loaded where r: "r = (rtext, loaded)" by (cases r)
    show ?thesis
    proof (cases "parse_response B rtext loaded n")
      case (Inl e)
      with False Inr r assms show ?thesis
        by (auto simp: compose_def intro: fallback_response_resolves)
    next
      case pr: (Inr res)
      obtain l1 cs1 n1 where res: "res = (l1, cs1, n1)" by (cases res)
      from pr res have lr: "layout_resolves l1 cs1" by (auto intro: parse_response_resolves)
      from False Inr r pr res assms have "l = l1" "cs = fst (add_extraction_warnings cs1 exs n1)"
        by (auto simp: compose_def split: prod.splits)
      with lr add_extraction_warnings_superset [of cs1 exs n1] show ?thesis
        by (auto intro: layout_resolves_mono)
    qed
  qed
qed

text \<open>
  Claim C7: in every layout the composer produces, each component_ids entry of each section
  is the id of a component in the returned components list, and no section is empty; a raw
  section all of whose raw components fail validation is dropped entirely: the result is
  the one obtained without that section. For a layout built from the reply, the section ids
  taken together are exactly the ids of the components, in order.
\<close>

theorem C7_layout_ids_resolve:
  "(\<forall>layout components fresh'.
       build_layout_from_data B data fresh = Inr (layout, components, fresh') \<longrightarrow>
         layout_resolves layout components
         \<and> concat (map component_ids (sections layout)) = map comp_id components)
   \<and> (\<forall>xs s ys kvs. all_components_fail B s \<longrightarrow>
         build_layout_from_data B (JObj ((''sections'', JArr (xs @ s # ys)) # kvs)) fresh
           = build_layout_from_data B (JObj ((''sections'', JArr (xs @ ys)) # kvs)) fresh)
   \<and> (\<forall>query extractions reply layout components fresh'.
         compose B query extractions reply fresh = (layout, components, fresh') \<longrightarrow>
           layout_resolves layout components)"
  using build_layout_resolves build_layout_drop compose_resolves
  by (intro conjI allI impI) blast+

theorem C7_layout_ids_resolve_witness:
  "build_layout_from_data example_builtins reply_with_rejected_section 0
     = Inr (summary_layout, [summary_component], 1)
   \<and> layout_resolves summary_layout [summary_component]
   \<and> all_components_fail example_builtins (raw_section ''Figures'' [chart_with_one_point])
   \<and> build_layout_from_data example_builtins reply_with_rejected_section 0
       = build_layout_from_data example_builtins
           (JObj [(''sections'', JArr [raw_section ''Summary'' [raw_text_block ''The bill passed.'']]),
                  (''title'', JStr ''Result'')]) 0
   \<and> compose example_builtins ''Did the bill pass?'' [example_extraction]
         (Inr (''reply'', Some reply_with_rejected_section)) 0
       = (summary_layout, [summary_component], 1)"
proof -
  note th = C7_layout_ids_resolve [of example_builtins reply_with_rejected_section 0]
  have a: "build_layout_from_data example_builtins reply_with_rejected_section 0
     = Inr (summary_layout, [summary_component], 1)"
    by code_simp
  note b = th [THEN conjunct1, rule_format, OF a, THEN conjunct1]
  have c: "all_components_fail example_builtins (raw_section ''Figures'' [chart_with_one_point])"
    by code_simp
  have d: "build_layout_from_data example_builtins reply_with_rejected_section 0
       = build_layout_from_data example_builtins
           (JObj [(''sections'', JArr [raw_section ''Summary'' [raw_text_block ''The bill passed.'']]),
                  (''title'', JStr ''Result'')]) 0"
    using th [THEN conjunct2, THEN conjunct1, rule_format, OF c,
        of "[]" "[raw_section ''Summary'' [raw_text_block ''The bill passed.'']]"
           "[(''title'', JStr ''Result'')]"]
    by (simp add: reply_with_rejected_section_def)
  have e: "compose example_builtins ''Did the bill pass?'' [example_extraction]
         (Inr (''reply'', Some reply_with_rejected_section)) 0
       = (summary_layout, [summary_component], 1)"
    by code_simp
  from a b c d e show ?thesis by (intro conjI)
qed

section \<open>Theorems: pipeline orchestrator\<close>

lemma total_cents_zero: "total_cents zero = 0"
  by (simp add: zero_def)




text \<open>
  Claim C2, amended: when the cache misses, the planner returns and the retriever returns a
  result with is_sufficient false, execute returns exactly two components, a warning-level
  notice followed by a text block of suggestions, with documents_retrieved = 0, chunks_used
  equal to the number of chunks the retriever returned, and a zero cost; the calls made are
  the cache read, the planner and the retriever only, and the cache is unchanged.
\<close>

theorem C2_insufficient_retrieval:
  assumes "map_of cache (query_key P query) = None"
    and "planner P (query_text query) = Inr intent"
    and "retriever P (query_text query) intent = Inr retrieval"
    and "\<not> is_sufficient retrieval"
  shows "\<exists>res n t. execute P cache query elapsed_ms fresh
           = (\<lparr>result = res, cost = zero\<rparr>, cache,
              [CacheGet (query_key P query), PlannerCall (query_text query),
               RetrieverCall (query_text query)])
       \<and> rag_components res =
           [\<lparr>comp_id = fresh, content = NoticeContent n, comp_size = JNull\<rparr>,
            \<lparr>comp_id = Suc fresh, content = TextBlockContent t, comp_size = JNull\<rparr>]
       \<and> nt_level n = WARNING
       \<and> chunks_used (rag_metadata res) = int (length (chunks retrieval))
       \<and> documents_retrieved (rag_metadata res) = 0
       \<and> \<not> cached res
       \<and> total_cents zero = 0"
  using assms
  by (simp add: execute_def Let_def insufficient_data_response_def create_def total_cents_zero)

lemma insert_near_top_keeps:
  "filter (\<lambda>c. c \<noteq> x) (insert_near_top x cs) = filter (\<lambda>c. c \<noteq> x) cs"
proof -
  have "filter P (take i cs) @ filter P (drop i cs) = filter P cs" for P i
    by (metis append_take_drop_id filter_append)
  then show ?thesis by (simp add: insert_near_top_def Let_def)
qed






text \<open>
  Claim C2, as stated, says chunks_used = 0. With an insufficient retrieval of one chunk,
  the metadata reports chunks_used = 1.
\<close>

theorem C2_chunks_used_counterexample:
  "\<not> is_sufficient insufficient_retrieval
   \<and> retriever (example_pipeline insufficient_retrieval None) (query_text example_query)
       (example_intent SINGLE_FOCUS [query_text example_query]) = Inr insufficient_retrieval
   \<and> chunks_used (rag_metadata (result (fst
        (execute (example_pipeline insufficient_retrieval None) [] example_query 12 0)))) = 1"
  by code_simp

theorem C2_insufficient_retrieval_witness:
  "map_of [] (query_key (example_pipeline insufficient_retrieval None) example_query) = None
   \<and> planner (example_pipeline insufficient_retrieval None) (query_text example_query)
       = Inr (example_intent SINGLE_FOCUS [query_text example_query])
   \<and> retriever (example_pipeline insufficient_retrieval None) (query_text example_query)
       (example_intent SINGLE_FOCUS [query_text example_query]) = Inr insufficient_retrieval
   \<and> \<not> is_sufficient insufficient_retrieval
   \<and> (\<exists>res n t. execute (example_pipeline insufficient_retrieval None) [] example_query 12 0
           = (\<lparr>result = res, cost = zero\<rparr>, [],
              [CacheGet (query_key (example_pipeline insufficient_retrieval None) example_query),
               PlannerCall (query_text example_query), RetrieverCall (query_text example_query)])
       \<and> rag_components res =
           [\<lparr>comp_id = 0, content = NoticeContent n, comp_size = JNull\<rparr>,
            \<lparr>comp_id = Suc 0, content = TextBlockContent t, comp_size = JNull\<rparr>]
       \<and> nt_level n = WARNING
       \<and> chunks_used (rag_metadata res) = int (length (chunks insufficient_retrieval))
       \<and> documents_retrieved (rag_metadata res) = 0
       \<and> \<not> cached res
       \<and> total_cents zero = 0)"
proof -
  let ?P = "example_pipeline insufficient_retrieval None"
  have a: "map_of [] (query_key ?P example_query) = None" by simp
  have b: "planner ?P (query_text example_query)
       = Inr (example_intent SINGLE_FOCUS [query_text example_query])"
    by (simp add: example_pipeline_def)
  have c: "retriever ?P (query_text example_query)
       (example_intent SINGLE_FOCUS [query_text example_query]) = Inr insufficient_retrieval"
    by (simp add: example_pipeline_def)
  have d: "\<not> is_sufficient insufficient_retrieval"
    by (simp add: insufficient_retrieval_def)
  from a b c d C2_insufficient_retrieval [OF a b c d, of 12 0]
  show ?thesis by (intro conjI)
qed



end
